theory Spec2Isabelle
  imports Main "HOL-Library.Sublist"
begin

section \<open>Data model\<close>

text \<open>
  Values as JavaScript sees them after \<^verbatim>\<open>JSON.parse\<close> or a property read.
  \<open>JUndefined\<close> is the result of reading a property that is not there.
  \<open>JNum\<close> carries an integer: array lengths and the numbers the claims need.
\<close>

datatype jsval =
    JUndefined
  | JNull
  | JBool bool
  | JNum int
  | JStr string
  | JArr "jsval list"
  | JObj "(string \<times> jsval) list"

text \<open>
  A task is the object \<^verbatim>\<open>{ task: ..., completed: ... }\<close>. The application itself stores
  strings in \<open>task\<close> (\<open>JStr\<close>); the suggestion handler stores whatever element the parsed
  response holds, so the field has the type of a JavaScript value.
\<close>

record task_item =
  task :: jsval
  completed :: bool

type_synonym trades_map = "string \<rightharpoonup> task_item list"

record unit_doc =
  address :: string
  status :: string
  trades :: trades_map

datatype msg_type = Info | Error

type_synonym message = "string \<times> msg_type"

text \<open>
  The document store: the documents of the units collection by key, and the keys of the
  write requests it has received so far, oldest first.
\<close>

record firestore =
  docs :: "string \<rightharpoonup> unit_doc"
  requests :: "string list"

text \<open>
  The environment decides the fate of each write request by its position in the request
  sequence: \<open>None\<close> lets it through, \<open>Some m\<close> rejects it with the error message \<open>m\<close>
  (connectivity, permissions, a key the store refuses).
\<close>

type_synonym env = "nat \<Rightarrow> string option"

text \<open>
  The state of the application: the component state of \<^verbatim>\<open>App\<close> (\<open>db\<close>, \<open>userId\<close>), of
  \<^verbatim>\<open>UnitView\<close> (\<open>unitId\<close>, \<open>unitData\<close>, \<open>selectedTrade\<close>, \<open>loading\<close>,
  \<open>isGeneratingTasks\<close>), the store behind \<open>db\<close> and the messages shown so far.
\<close>

record state =
  db :: bool
  userId :: "string option"
  fs :: firestore
  messages :: "message list"
  unitId :: string
  unitData :: "unit_doc option"
  selectedTrade :: string
  loading :: bool
  isGeneratingTasks :: bool

datatype exn = TypeError | Thrown string

section \<open>Messages and strings\<close>

definition showMessage :: "string \<Rightarrow> msg_type \<Rightarrow> state \<Rightarrow> state" where
  "showMessage message ty s = s\<lparr>messages := messages s @ [(message, ty)]\<rparr>"

definition dquote :: string where
  "dquote = [CHR 0x22]"

definition digit_char :: "nat \<Rightarrow> char" where
  "digit_char d = ''0123456789'' ! d"

text \<open>The decimal numeral of a number, as a template literal prints it.\<close>

fun show_nat :: "nat \<Rightarrow> string" where
  "show_nat n = (if n < 10 then [digit_char n] else show_nat (n div 10) @ [digit_char (n mod 10)])"

declare show_nat.simps [simp del]

text \<open>JavaScript truthiness of a string that may be \<^verbatim>\<open>null\<close>.\<close>

definition truthy_string :: "string option \<Rightarrow> bool" where
  "truthy_string x = (case x of None \<Rightarrow> False | Some v \<Rightarrow> v \<noteq> [])"

section \<open>The document store\<close>

text \<open>
  Modelled from the spec: the Document Store is an external service, not code of this
  repository. \<open>setDocument(collection, key, value)\<close> replaces the whole document under the
  key, creating it when it is absent; the write either completes or is rejected.
\<close>

definition setDoc :: "env \<Rightarrow> string \<Rightarrow> unit_doc \<Rightarrow> firestore \<Rightarrow> string option \<times> firestore" where
  "setDoc env key data f =
     (let f' = f\<lparr>requests := requests f @ [key]\<rparr> in
      case env (length (requests f)) of
        Some m \<Rightarrow> (Some m, f')
      | None \<Rightarrow> (None, f'\<lparr>docs := (docs f)(key \<mapsto> data)\<rparr>))"

text \<open>
  Modelled from the spec: \<open>updateFields(collection, key, partialValue)\<close> of the external
  Document Store, here always with the one field \<open>trades\<close>. It replaces that field of an
  existing document and leaves the others; it is rejected when the document does not
  exist ("not found").
\<close>

definition updateDoc :: "env \<Rightarrow> string \<Rightarrow> trades_map \<Rightarrow> firestore \<Rightarrow> string option \<times> firestore" where
  "updateDoc env key ts f =
     (let f' = f\<lparr>requests := requests f @ [key]\<rparr> in
      case env (length (requests f)) of
        Some m \<Rightarrow> (Some m, f')
      | None \<Rightarrow>
          (case docs f key of
             None \<Rightarrow> (Some ''No document to update'', f')
           | Some d \<Rightarrow> (None, f'\<lparr>docs := (docs f)(key \<mapsto> d\<lparr>trades := ts\<rparr>)\<rparr>)))"

section \<open>HomePage: creating units\<close>

definition mk_task :: "string \<Rightarrow> task_item" where
  "mk_task t = \<lparr>task = JStr t, completed = False\<rparr>"

definition defaultTrades :: trades_map where
  "defaultTrades = map_of
     [(''Electrical'', [mk_task ''Rough-in wiring'', mk_task ''Fixture installation'']),
      (''Plumbing'', [mk_task ''Rough-in pipes'', mk_task ''Fixture hookup'']),
      (''Drywall'', [mk_task ''Hang sheets'', mk_task ''Tape and mud'']),
      (''Painting'', [mk_task ''Prime walls'', mk_task ''Apply finish coats'']),
      (''Flooring'', [mk_task ''Install subfloor'', mk_task ''Lay finish flooring''])]"

definition new_unit :: "string \<Rightarrow> unit_doc" where
  "new_unit unitAddress = \<lparr>address = unitAddress, status = ''Not Started'', trades = defaultTrades\<rparr>"

text \<open>
  \<^verbatim>\<open>addUnitToFirestore\<close>: the boolean is the value the function returns. A rejected write
  is caught inside the function and becomes \<open>False\<close>.
\<close>

definition addUnitToFirestore :: "env \<Rightarrow> string \<Rightarrow> string \<Rightarrow> state \<Rightarrow> bool \<times> state" where
  "addUnitToFirestore env unitName unitAddress s =
     (if \<not> db s \<or> \<not> truthy_string (userId s)
      then (False, showMessage ''Firebase not initialized. Please wait.'' Error s)
      else
        (case setDoc env unitName (new_unit unitAddress) (fs s) of
           (None, f') \<Rightarrow>
             (True, showMessage (''Unit '' @ dquote @ unitName @ dquote @ '' added successfully!'') Info
                      (s\<lparr>fs := f'\<rparr>))
         | (Some m, f') \<Rightarrow>
             (False, showMessage (''Error adding unit: '' @ m) Error (s\<lparr>fs := f'\<rparr>))))"

section \<open>UnitView: the live snapshot of one unit\<close>

text \<open>
  The callback of the document subscription (\<^verbatim>\<open>getUnit\<close> in the spec's words). The
  argument \<open>firstTrade\<close> is \<^verbatim>\<open>Object.keys(docSnap.data().trades)[0]\<close>, which depends on
  the key order of the runtime's object; \<open>None\<close> is \<^verbatim>\<open>undefined\<close>.
\<close>

definition onUnitSnapshot :: "string option \<Rightarrow> state \<Rightarrow> state" where
  "onUnitSnapshot firstTrade s =
     (case docs (fs s) (unitId s) of
        Some d \<Rightarrow>
          s\<lparr>unitData := Some d,
            selectedTrade :=
              (if selectedTrade s = [] \<and> truthy_string firstTrade then the firstTrade
               else selectedTrade s),
            loading := False\<rparr>
      | None \<Rightarrow>
          (showMessage (''Unit '' @ dquote @ unitId s @ dquote @ '' not found.'') Error
             (s\<lparr>unitData := None\<rparr>))\<lparr>loading := False\<rparr>)"

section \<open>HomePage: bulk generation\<close>

definition buildingPrefixes :: "string list" where
  "buildingPrefixes = [''BuildingA'', ''BuildingB'', ''BuildingC'', ''BuildingD'']"

definition unitNumber :: "nat \<Rightarrow> string" where
  "unitNumber i = (if i < 10 then ''0'' @ show_nat i else show_nat i)"

definition unitName :: "string \<Rightarrow> nat \<Rightarrow> string" where
  "unitName building i = building @ ''-Unit'' @ unitNumber i"

definition unitAddress :: "string \<Rightarrow> nat \<Rightarrow> string" where
  "unitAddress building i = building @ '' Address, Unit '' @ unitNumber i"

text \<open>
  The inner loop \<^verbatim>\<open>for (let i = 1; i <= 20; i++)\<close>, entered at \<open>i\<close> with the counter
  \<open>unitsAddedCount\<close>. The result is: whether the handler has returned from inside the
  loop, the counter, the state.
\<close>

function unitLoop :: "env \<Rightarrow> string \<Rightarrow> nat \<Rightarrow> nat \<Rightarrow> state \<Rightarrow> bool \<times> nat \<times> state" where
  "unitLoop env building i unitsAddedCount s =
     (if i \<le> 20 then
        (let r = addUnitToFirestore env (unitName building i) (unitAddress building i) s in
         if fst r then unitLoop env building (i + 1) (unitsAddedCount + 1) (snd r)
         else (True, unitsAddedCount,
               showMessage (''Failed to add unit '' @ unitName building i @ ''. Stopping batch generation.'')
                 Error (snd r)))
      else (False, unitsAddedCount, s))"
  by pat_completeness auto
termination
  by (relation "measure (\<lambda>(env, building, i, c, s). 21 - i)") auto

declare unitLoop.simps [simp del]

text \<open>The outer loop \<^verbatim>\<open>for (const building of buildingPrefixes)\<close>.\<close>

fun buildingLoop :: "env \<Rightarrow> string list \<Rightarrow> nat \<Rightarrow> state \<Rightarrow> bool \<times> nat \<times> state" where
  "buildingLoop env [] unitsAddedCount s = (False, unitsAddedCount, s)"
| "buildingLoop env (building # rest) unitsAddedCount s =
     (case unitLoop env building 1 unitsAddedCount s of
        (True, c, s') \<Rightarrow> (True, c, s')
      | (False, c, s') \<Rightarrow> buildingLoop env rest c s')"

text \<open>\<open>confirmGenerate\<close> is the answer of \<^verbatim>\<open>window.confirm\<close>.\<close>

definition handleGenerateMultipleUnits :: "env \<Rightarrow> bool \<Rightarrow> state \<Rightarrow> state" where
  "handleGenerateMultipleUnits env confirmGenerate s =
     (if \<not> db s \<or> \<not> truthy_string (userId s)
      then showMessage ''Firebase not initialized. Please wait.'' Error s
      else if \<not> confirmGenerate then s
      else
        (case buildingLoop env buildingPrefixes 0
                (showMessage ''Generating units, please wait...'' Info s) of
           (True, c, s') \<Rightarrow> s'
         | (False, c, s') \<Rightarrow>
             showMessage (''Successfully added '' @ show_nat c @ '' units!'') Info s'))"

text \<open>
  For the proofs: the names and addresses the two loops go through, in order, and the
  same sequence of calls as one recursion over that list.
\<close>

definition unitsOf :: "string \<Rightarrow> nat \<Rightarrow> (string \<times> string) list" where
  "unitsOf building i = map (\<lambda>j. (unitName building j, unitAddress building j)) [i..<21]"

definition generatedUnits :: "(string \<times> string) list" where
  "generatedUnits = concat (map (\<lambda>building. unitsOf building 1) buildingPrefixes)"

fun createEach :: "env \<Rightarrow> (string \<times> string) list \<Rightarrow> nat \<Rightarrow> state \<Rightarrow> bool \<times> nat \<times> state" where
  "createEach env [] c s = (False, c, s)"
| "createEach env (u # us) c s =
     (let r = addUnitToFirestore env (fst u) (snd u) s in
      if fst r then createEach env us (c + 1) (snd r)
      else (True, c,
            showMessage (''Failed to add unit '' @ fst u @ ''. Stopping batch generation.'')
              Error (snd r)))"

text \<open>
  The state after the first \<open>k\<close> units of a list have been created and, when the list is
  longer than \<open>k\<close>, the next call has been rejected with the message \<open>m\<close>.
\<close>

definition addedMessage :: "string \<times> string \<Rightarrow> message" where
  "addedMessage u = (''Unit '' @ dquote @ fst u @ dquote @ '' added successfully!'', Info)"

definition stopMessages :: "string \<Rightarrow> (string \<times> string) list \<Rightarrow> nat \<Rightarrow> message list" where
  "stopMessages m us k =
     (if k < length us
      then [(''Error adding unit: '' @ m, Error),
            (''Failed to add unit '' @ fst (us ! k) @ ''. Stopping batch generation.'', Error)]
      else [])"

definition storeUnit :: "string \<times> string \<Rightarrow> (string \<rightharpoonup> unit_doc) \<Rightarrow> (string \<rightharpoonup> unit_doc)" where
  "storeUnit u dm = dm(fst u \<mapsto> new_unit (snd u))"

definition afterRun :: "string \<Rightarrow> (string \<times> string) list \<Rightarrow> nat \<Rightarrow> state \<Rightarrow> state" where
  "afterRun m us k s =
     s\<lparr>fs := \<lparr>docs = fold storeUnit (take k us) (docs (fs s)),
              requests = requests (fs s) @ map fst (take (Suc k) us)\<rparr>,
       messages := messages s @ map addedMessage (take k us) @ stopMessages m us k\<rparr>"

section \<open>UnitView: task mutations\<close>

definition flip :: "task_item \<Rightarrow> task_item" where
  "flip t = t\<lparr>completed := \<not> completed t\<rparr>"

text \<open>
  \<^verbatim>\<open>handleTaskToggle\<close>. \<open>Inl\<close> is an exception that leaves the handler (the promise it
  returns is rejected): the spread of \<^verbatim>\<open>undefined\<close> when the trade is not a key of
  \<^verbatim>\<open>unitData.trades\<close>, the read of \<^verbatim>\<open>.completed\<close> on \<^verbatim>\<open>undefined\<close> when the index is
  outside the list; both stand before the \<^verbatim>\<open>try\<close>.

  The copies \<^verbatim>\<open>{ ...unitData.trades }\<close> and \<^verbatim>\<open>[...updatedTrades[tradeName]]\<close> are shallow:
  the task object that is flipped is the one \<^verbatim>\<open>unitData\<close> holds, so the component's
  \<open>unitData\<close> shows the flipped task from then on, whatever the store answers.
\<close>

definition handleTaskToggle :: "env \<Rightarrow> string \<Rightarrow> nat \<Rightarrow> state \<Rightarrow> exn + state" where
  "handleTaskToggle env tradeName taskIndex s =
     (case unitData s of
        None \<Rightarrow> Inr s
      | Some ud \<Rightarrow>
          if \<not> db s then Inr s
          else
            (case trades ud tradeName of
               None \<Rightarrow> Inl TypeError
             | Some tasks \<Rightarrow>
                 if \<not> taskIndex < length tasks then Inl TypeError
                 else
                   (let updatedTrades = (trades ud)(tradeName \<mapsto> tasks[taskIndex := flip (tasks ! taskIndex)]);
                        s1 = s\<lparr>unitData := Some (ud\<lparr>trades := updatedTrades\<rparr>)\<rparr>
                    in case updateDoc env (unitId s) updatedTrades (fs s) of
                         (None, f') \<Rightarrow>
                           Inr (showMessage (''Task updated for '' @ tradeName @ ''!'') Info (s1\<lparr>fs := f'\<rparr>))
                       | (Some m, f') \<Rightarrow>
                           Inr (showMessage (''Error updating task: '' @ m) Error (s1\<lparr>fs := f'\<rparr>)))))"

text \<open>
  The task list of a trade as the handlers read it:
  \<^verbatim>\<open>updatedTrades[selectedTrade] ? [...updatedTrades[selectedTrade]] : []\<close>.
\<close>

definition tasksOf :: "trades_map \<Rightarrow> string \<Rightarrow> task_item list" where
  "tasksOf tm tradeName = (case tm tradeName of Some ts \<Rightarrow> ts | None \<Rightarrow> [])"

text \<open>
  \<^verbatim>\<open>handleAddTask\<close>. \<open>promptResult\<close> is the answer of \<^verbatim>\<open>window.prompt\<close>: \<open>None\<close> when the
  user cancels.
\<close>

definition handleAddTask :: "env \<Rightarrow> string option \<Rightarrow> state \<Rightarrow> state" where
  "handleAddTask env promptResult s =
     (case unitData s of
        None \<Rightarrow> showMessage ''Please select a trade first.'' Error s
      | Some ud \<Rightarrow>
          if \<not> db s \<or> selectedTrade s = [] then showMessage ''Please select a trade first.'' Error s
          else if \<not> truthy_string promptResult then s
          else
            (let newTaskName = the promptResult;
                 tasks = tasksOf (trades ud) (selectedTrade s) @ [\<lparr>task = JStr newTaskName, completed = False\<rparr>];
                 updatedTrades = (trades ud)(selectedTrade s \<mapsto> tasks)
             in case updateDoc env (unitId s) updatedTrades (fs s) of
                  (None, f') \<Rightarrow>
                    showMessage (''Task '' @ dquote @ newTaskName @ dquote @ '' added to '' @ selectedTrade s @ ''!'')
                      Info (s\<lparr>fs := f'\<rparr>)
                | (Some m, f') \<Rightarrow>
                    showMessage (''Error adding task: '' @ m) Error (s\<lparr>fs := f'\<rparr>)))"

section \<open>UnitView: suggested tasks\<close>

subsection \<open>Reading the response\<close>

fun truthy :: "jsval \<Rightarrow> bool" where
  "truthy JUndefined = False"
| "truthy JNull = False"
| "truthy (JBool b) = b"
| "truthy (JNum n) = (n \<noteq> 0)"
| "truthy (JStr t) = (t \<noteq> [])"
| "truthy (JArr xs) = True"
| "truthy (JObj kvs) = True"

definition own :: "(string \<times> jsval) list \<Rightarrow> string \<Rightarrow> jsval" where
  "own kvs name = (case map_of kvs name of Some v \<Rightarrow> v | None \<Rightarrow> JUndefined)"

text \<open>
  \<^verbatim>\<open>v.name\<close> for a name that is neither \<^verbatim>\<open>length\<close> nor an index (here \<^verbatim>\<open>candidates\<close>,
  \<^verbatim>\<open>content\<close>, \<^verbatim>\<open>parts\<close>, \<^verbatim>\<open>text\<close>): a TypeError on \<^verbatim>\<open>null\<close> and \<^verbatim>\<open>undefined\<close>,
  the own property of an object, \<^verbatim>\<open>undefined\<close> otherwise.
\<close>

fun get_prop :: "string \<Rightarrow> jsval \<Rightarrow> exn + jsval" where
  "get_prop name JUndefined = Inl TypeError"
| "get_prop name JNull = Inl TypeError"
| "get_prop name (JObj kvs) = Inr (own kvs name)"
| "get_prop name v = Inr JUndefined"

text \<open>\<^verbatim>\<open>v.length\<close>.\<close>

fun get_length :: "jsval \<Rightarrow> exn + jsval" where
  "get_length JUndefined = Inl TypeError"
| "get_length JNull = Inl TypeError"
| "get_length (JObj kvs) = Inr (own kvs ''length'')"
| "get_length (JArr xs) = Inr (JNum (int (length xs)))"
| "get_length (JStr t) = Inr (JNum (int (length t)))"
| "get_length v = Inr JUndefined"

text \<open>\<^verbatim>\<open>v[0]\<close>.\<close>

fun get_first :: "jsval \<Rightarrow> exn + jsval" where
  "get_first JUndefined = Inl TypeError"
| "get_first JNull = Inl TypeError"
| "get_first (JObj kvs) = Inr (own kvs ''0'')"
| "get_first (JArr xs) = Inr (case xs of [] \<Rightarrow> JUndefined | x # _ \<Rightarrow> x)"
| "get_first (JStr t) = Inr (case t of [] \<Rightarrow> JUndefined | c # _ \<Rightarrow> JStr [c])"
| "get_first v = Inr JUndefined"

text \<open>
  \<^verbatim>\<open>v > 0\<close>. Numbers, booleans, \<^verbatim>\<open>null\<close> and \<^verbatim>\<open>undefined\<close> compare as the language
  says; for a string, an array or an object the comparison goes through the language's
  conversion to a number, which is the parameter \<open>coerce\<close>.
\<close>

fun gt_zero :: "(jsval \<Rightarrow> bool) \<Rightarrow> jsval \<Rightarrow> bool" where
  "gt_zero coerce JUndefined = False"
| "gt_zero coerce JNull = False"
| "gt_zero coerce (JBool b) = b"
| "gt_zero coerce (JNum n) = (0 < n)"
| "gt_zero coerce v = coerce v"

definition bind_exn :: "exn + 'a \<Rightarrow> ('a \<Rightarrow> exn + 'b) \<Rightarrow> exn + 'b" where
  "bind_exn m k = (case m of Inl e \<Rightarrow> Inl e | Inr v \<Rightarrow> k v)"

text \<open>
  The condition on the shape of the response and the read of
  \<^verbatim>\<open>result.candidates[0].content.parts[0].text\<close>: \<open>Inl\<close> when a property read throws,
  \<open>Inr None\<close> when the condition is false, \<open>Inr (Some t)\<close> with the value read otherwise.
\<close>

definition response_text :: "(jsval \<Rightarrow> bool) \<Rightarrow> jsval \<Rightarrow> exn + jsval option" where
  "response_text coerce result =
     bind_exn (get_prop ''candidates'' result) (\<lambda>candidates.
       if \<not> truthy candidates then Inr None
       else bind_exn (get_length candidates) (\<lambda>n.
         if \<not> gt_zero coerce n then Inr None
         else bind_exn (get_first candidates) (\<lambda>c0.
           bind_exn (get_prop ''content'' c0) (\<lambda>content.
             if \<not> truthy content then Inr None
             else bind_exn (get_prop ''parts'' content) (\<lambda>parts.
               if \<not> truthy parts then Inr None
               else bind_exn (get_length parts) (\<lambda>m.
                 if \<not> gt_zero coerce m then Inr None
                 else bind_exn (get_first parts) (\<lambda>p0.
                   bind_exn (get_prop ''text'' p0) (\<lambda>t. Inr (Some t)))))))))"

subsection \<open>Appending the suggestions\<close>

text \<open>
  \<^verbatim>\<open>existing.task === suggestedTask\<close>. An array or an object is equal only to itself, and
  a value fresh from the parser is no object already in a task.
\<close>

fun strict_eq :: "jsval \<Rightarrow> jsval \<Rightarrow> bool" where
  "strict_eq JUndefined JUndefined = True"
| "strict_eq JNull JNull = True"
| "strict_eq (JBool a) (JBool b) = (a = b)"
| "strict_eq (JNum a) (JNum b) = (a = b)"
| "strict_eq (JStr a) (JStr b) = (a = b)"
| "strict_eq v w = False"

definition newTasksToAdd :: "task_item list \<Rightarrow> jsval list \<Rightarrow> task_item list" where
  "newTasksToAdd existingTasks suggestedTasks =
     map (\<lambda>t. \<lparr>task = t, completed = False\<rparr>)
       (filter (\<lambda>suggestedTask. \<not> list_ex (\<lambda>existing. strict_eq (task existing) suggestedTask) existingTasks)
          suggestedTasks)"

text \<open>
  The part of \<^verbatim>\<open>handleSuggestTasks\<close> that follows \<^verbatim>\<open>JSON.parse\<close>. The first component of
  the result is the exception thrown inside the \<^verbatim>\<open>try\<close>, if any (a rejected write).
\<close>

definition appendSuggested :: "env \<Rightarrow> jsval \<Rightarrow> unit_doc \<Rightarrow> state \<Rightarrow> exn option \<times> state" where
  "appendSuggested env suggestedTasks ud s =
     (case suggestedTasks of
        JArr xs \<Rightarrow>
          if 0 < length xs then
            (let existingTasks = tasksOf (trades ud) (selectedTrade s);
                 new = newTasksToAdd existingTasks xs
             in if 0 < length new then
                  (case updateDoc env (unitId s) ((trades ud)(selectedTrade s \<mapsto> existingTasks @ new)) (fs s) of
                     (None, f') \<Rightarrow>
                       (None, showMessage (''Suggested tasks added for '' @ selectedTrade s @ ''!'') Info
                                (s\<lparr>fs := f'\<rparr>))
                   | (Some m, f') \<Rightarrow> (Some (Thrown m), s\<lparr>fs := f'\<rparr>))
                else (None, showMessage ''No new unique tasks were suggested.'' Info s))
          else (None, showMessage ''Gemini did not return a valid list of tasks.'' Error s)
      | _ \<Rightarrow> (None, showMessage ''Gemini did not return a valid list of tasks.'' Error s))"

text \<open>
  What the \<^verbatim>\<open>try\<close> block has in hand after \<^verbatim>\<open>JSON.parse\<close>: \<open>Inl\<close> when something threw
  (the request, \<^verbatim>\<open>response.json()\<close>, a property read, the parser), \<open>Inr None\<close> when the
  shape condition is false, \<open>Inr (Some v)\<close> with the parsed value \<open>v\<close> otherwise.
  \<open>fetched\<close> is the outcome of the request and of \<^verbatim>\<open>response.json()\<close> (\<open>Inl\<close> the message
  of what was thrown); \<open>jsonParse\<close> is \<^verbatim>\<open>JSON.parse\<close>.
\<close>

definition suggestedTasksOf ::
  "(jsval \<Rightarrow> bool) \<Rightarrow> (jsval \<Rightarrow> string + jsval) \<Rightarrow> string + jsval \<Rightarrow> exn + jsval option" where
  "suggestedTasksOf coerce jsonParse fetched =
     (case fetched of
        Inl m \<Rightarrow> Inl (Thrown m)
      | Inr result \<Rightarrow>
          (case response_text coerce result of
             Inl e \<Rightarrow> Inl e
           | Inr None \<Rightarrow> Inr None
           | Inr (Some jsonString) \<Rightarrow>
               (case jsonParse jsonString of
                  Inl m \<Rightarrow> Inl (Thrown m)
                | Inr suggestedTasks \<Rightarrow> Inr (Some suggestedTasks))))"

text \<open>
  \<^verbatim>\<open>error.message\<close> in the \<^verbatim>\<open>catch\<close>. The wording of an engine's TypeError is not
  part of the program.
\<close>

fun error_message :: "exn \<Rightarrow> string" where
  "error_message TypeError = ''TypeError''"
| "error_message (Thrown m) = m"

definition handleSuggestTasks ::
  "env \<Rightarrow> (jsval \<Rightarrow> bool) \<Rightarrow> (jsval \<Rightarrow> string + jsval) \<Rightarrow> string + jsval \<Rightarrow> state \<Rightarrow> state" where
  "handleSuggestTasks env coerce jsonParse fetched s =
     (case unitData s of
        None \<Rightarrow> showMessage ''Please select a trade and ensure unit data is loaded.'' Error s
      | Some ud \<Rightarrow>
          if \<not> db s \<or> selectedTrade s = []
          then showMessage ''Please select a trade and ensure unit data is loaded.'' Error s
          else
            (let s1 = showMessage (''Generating tasks for '' @ selectedTrade s @ ''...'') Info
                        (s\<lparr>isGeneratingTasks := True\<rparr>);
                 r = (case suggestedTasksOf coerce jsonParse fetched of
                        Inl e \<Rightarrow> (Some e, s1)
                      | Inr None \<Rightarrow>
                          (None, showMessage ''Failed to get task suggestions from Gemini. Please try again.''
                                   Error s1)
                      | Inr (Some suggestedTasks) \<Rightarrow> appendSuggested env suggestedTasks ud s1);
                 s2 = (case fst r of
                         None \<Rightarrow> snd r
                       | Some e \<Rightarrow> showMessage (''Error suggesting tasks: '' @ error_message e) Error (snd r))
             in s2\<lparr>isGeneratingTasks := False\<rparr>))"

text \<open>For the proofs: the progress message of the suggestion handler.\<close>

definition generatingMessage :: "state \<Rightarrow> message" where
  "generatingMessage s = (''Generating tasks for '' @ selectedTrade s @ ''...'', Info)"

section \<open>Example states\<close>

definition allAccepted :: env where
  "allAccepted = (\<lambda>k. None)"

text \<open>The store rejects the request at position \<open>i\<close> and accepts every other.\<close>

definition failsAt :: "nat \<Rightarrow> env" where
  "failsAt i = (\<lambda>k. if k = i then Some ''unavailable'' else None)"

definition emptyStore :: firestore where
  "emptyStore = \<lparr>docs = Map.empty, requests = []\<rparr>"

text \<open>A signed-in application on an empty store, no unit open.\<close>

definition homeState :: state where
  "homeState =
     \<lparr>db = True, userId = Some ''user-1'', fs = emptyStore, messages = [],
      unitId = [], unitData = None, selectedTrade = [], loading = False,
      isGeneratingTasks = False\<rparr>"

text \<open>A unit that has been worked on: its first electrical task is done.\<close>

definition workedTrades :: trades_map where
  "workedTrades = defaultTrades(''Electrical'' \<mapsto>
     [\<lparr>task = JStr ''Rough-in wiring'', completed = True\<rparr>, mk_task ''Fixture installation''])"

definition workedUnit :: unit_doc where
  "workedUnit = \<lparr>address = ''123 Main'', status = ''In Progress'', trades = workedTrades\<rparr>"

text \<open>The unit view of \<open>A-1\<close>, in step with the store, with the trade Electrical selected.\<close>

definition viewState :: state where
  "viewState =
     \<lparr>db = True, userId = Some ''user-1'',
      fs = \<lparr>docs = [''A-1'' \<mapsto> workedUnit], requests = []\<rparr>, messages = [],
      unitId = ''A-1'', unitData = Some workedUnit, selectedTrade = ''Electrical'',
      loading = False, isGeneratingTasks = False\<rparr>"

text \<open>
  The same view when another writer has removed the trade Electrical from the stored
  unit, and when the unit is no longer in the store.
\<close>

definition staleView :: state where
  "staleView =
     viewState\<lparr>fs := \<lparr>docs = [''A-1'' \<mapsto> workedUnit\<lparr>trades := workedTrades(''Electrical'' := None)\<rparr>],
                       requests = []\<rparr>\<rparr>"

definition orphanView :: state where
  "orphanView = viewState\<lparr>fs := emptyStore\<rparr>"

text \<open>A response of the expected shape, with \<open>t\<close> at \<^verbatim>\<open>candidates[0].content.parts[0].text\<close>.\<close>

definition geminiResponse :: "jsval \<Rightarrow> jsval" where
  "geminiResponse t =
     JObj [(''candidates'',
            JArr [JObj [(''content'', JObj [(''parts'', JArr [JObj [(''text'', t)]])])]])]"

text \<open>Texts of responses, and \<^verbatim>\<open>JSON.parse\<close> on those texts.\<close>

definition quoted :: "string \<Rightarrow> string" where
  "quoted t = dquote @ t @ dquote"

definition knownText :: string where
  "knownText = ''['' @ quoted ''Rough-in wiring'' @ '','' @ quoted ''Fixture installation'' @ '']''"

definition mixedText :: string where
  "mixedText = ''['' @ quoted ''Rough-in wiring'' @ '','' @ quoted ''Install conduit'' @ '']''"

definition lowerText :: string where
  "lowerText = ''['' @ quoted ''rough-in wiring'' @ '']''"

definition twiceText :: string where
  "twiceText = ''['' @ quoted ''Install conduit'' @ '','' @ quoted ''Install conduit'' @ '']''"

definition exampleParse :: "jsval \<Rightarrow> string + jsval" where
  "exampleParse t =
     (if t = JStr ''[1]'' then Inr (JArr [JNum 1])
      else if t = JStr ''[]'' then Inr (JArr [])
      else if t = JStr (quoted ''abc'') then Inr (JStr ''abc'')
      else if t = JStr knownText then Inr (JArr [JStr ''Rough-in wiring'', JStr ''Fixture installation''])
      else if t = JStr mixedText then Inr (JArr [JStr ''Rough-in wiring'', JStr ''Install conduit''])
      else if t = JStr lowerText then Inr (JArr [JStr ''rough-in wiring''])
      else if t = JStr twiceText then Inr (JArr [JStr ''Install conduit'', JStr ''Install conduit''])
      else Inl ''Unexpected token'')"

definition fetchedText :: "string \<Rightarrow> string + jsval" where
  "fetchedText t = Inr (geminiResponse (JStr t))"

text \<open>No string, array or object counts as greater than zero.\<close>

definition noCoercion :: "jsval \<Rightarrow> bool" where
  "noCoercion v = False"

section \<open>Creating a unit and reading it back\<close>

lemma defaultTrades_dom:
  "dom defaultTrades = {''Electrical'', ''Plumbing'', ''Drywall'', ''Painting'', ''Flooring''}"
  by (auto simp: defaultTrades_def split: if_splits)

lemma defaultTrades_two_tasks:
  "defaultTrades k = Some ts \<Longrightarrow> length ts = 2 \<and> list_all (\<lambda>t. \<not> completed t) ts"
  by (auto simp: defaultTrades_def mk_task_def split: if_splits)

lemma defaultTrades_Electrical:
  "defaultTrades ''Electrical'' =
     Some [\<lparr>task = JStr ''Rough-in wiring'', completed = False\<rparr>,
           \<lparr>task = JStr ''Fixture installation'', completed = False\<rparr>]"
  by (simp add: defaultTrades_def mk_task_def)

lemma addUnit_accepted:
  assumes "db s" and "truthy_string (userId s)" and "env (length (requests (fs s))) = None"
  shows "fst (addUnitToFirestore env n a s) = True"
    and "docs (fs (snd (addUnitToFirestore env n a s))) = (docs (fs s))(n \<mapsto> new_unit a)"
    and "requests (fs (snd (addUnitToFirestore env n a s))) = requests (fs s) @ [n]"
  using assms by (simp_all add: addUnitToFirestore_def setDoc_def showMessage_def Let_def)

lemma addUnit_rejected:
  assumes "db s" and "truthy_string (userId s)" and "env (length (requests (fs s))) = Some m"
  shows "fst (addUnitToFirestore env n a s) = False"
    and "docs (fs (snd (addUnitToFirestore env n a s))) = docs (fs s)"
    and "requests (fs (snd (addUnitToFirestore env n a s))) = requests (fs s) @ [n]"
  using assms by (simp_all add: addUnitToFirestore_def setDoc_def showMessage_def Let_def)

lemma addUnit_uninitialised:
  assumes "\<not> db s \<or> \<not> truthy_string (userId s)"
  shows "fst (addUnitToFirestore env n a s) = False"
    and "fs (snd (addUnitToFirestore env n a s)) = fs s"
  using assms by (auto simp: addUnitToFirestore_def showMessage_def)

text \<open>
  C4. When the application is initialised and the store accepts the write, creating a unit
  under any name and address and then reading that unit through its subscription gives a
  unit with that address, the status "Not Started" and the default trades: exactly the
  five trades Electrical, Plumbing, Drywall, Painting and Flooring, each with exactly two
  tasks, none completed; Electrical is Rough-in wiring, Fixture installation.
\<close>

theorem createUnit_then_getUnit:
  assumes "db s" and "truthy_string (userId s)" and "env (length (requests (fs s))) = None"
  shows "fst (addUnitToFirestore env n a s) = True \<and>
         (\<exists>d. unitData (onUnitSnapshot ft ((snd (addUnitToFirestore env n a s))\<lparr>unitId := n\<rparr>)) = Some d \<and>
              address d = a \<and> status d = ''Not Started'' \<and>
              dom (trades d) = {''Electrical'', ''Plumbing'', ''Drywall'', ''Painting'', ''Flooring''} \<and>
              list_all (\<lambda>k. length (tasksOf (trades d) k) = 2 \<and>
                             list_all (\<lambda>t. \<not> completed t) (tasksOf (trades d) k))
                [''Electrical'', ''Plumbing'', ''Drywall'', ''Painting'', ''Flooring''] \<and>
              trades d ''Electrical'' =
                Some [\<lparr>task = JStr ''Rough-in wiring'', completed = False\<rparr>,
                      \<lparr>task = JStr ''Fixture installation'', completed = False\<rparr>])"
proof -
  let ?r = "addUnitToFirestore env n a s"
  have ok: "fst ?r = True" and d: "docs (fs (snd ?r)) n = Some (new_unit a)"
    using assms addUnit_accepted [where s = s and env = env and n = n and a = a] by simp_all
  have snap: "unitData (onUnitSnapshot ft ((snd ?r)\<lparr>unitId := n\<rparr>)) = Some (new_unit a)"
    using d by (simp add: onUnitSnapshot_def)
  have two: "list_all (\<lambda>k. length (tasksOf defaultTrades k) = 2 \<and>
                            list_all (\<lambda>t. \<not> completed t) (tasksOf defaultTrades k))
               [''Electrical'', ''Plumbing'', ''Drywall'', ''Painting'', ''Flooring'']"
    by (simp add: tasksOf_def defaultTrades_def mk_task_def)
  show ?thesis
    using ok snap two defaultTrades_dom defaultTrades_Electrical
    by (simp add: new_unit_def)
qed

theorem createUnit_then_getUnit_witness:
  "db homeState \<and> truthy_string (userId homeState) \<and>
   allAccepted (length (requests (fs homeState))) = None \<and>
   fst (addUnitToFirestore allAccepted ''A-1'' ''123 Main'' homeState) = True \<and>
   (\<exists>d. unitData (onUnitSnapshot None
            ((snd (addUnitToFirestore allAccepted ''A-1'' ''123 Main'' homeState))\<lparr>unitId := ''A-1''\<rparr>)) = Some d \<and>
        address d = ''123 Main'' \<and> status d = ''Not Started'' \<and>
        trades d ''Electrical'' =
          Some [\<lparr>task = JStr ''Rough-in wiring'', completed = False\<rparr>,
                \<lparr>task = JStr ''Fixture installation'', completed = False\<rparr>])"
proof -
  have h: "db homeState" "truthy_string (userId homeState)"
    "allAccepted (length (requests (fs homeState))) = None"
    by (simp_all add: homeState_def truthy_string_def allAccepted_def)
  from h createUnit_then_getUnit
    [where s = homeState and env = allAccepted and n = "''A-1''" and a = "''123 Main''" and ft = None]
  show ?thesis by blast
qed

section \<open>Creating a unit under a name that is taken\<close>

text \<open>
  C1, as the spec states it, fails: with the unit \<open>A-1\<close> in the store and a store that
  accepts the write, adding a unit named \<open>A-1\<close> reports success and the stored document
  is replaced by a fresh one.
\<close>

theorem addUnit_existing_name_counterexample:
  "docs (fs viewState) ''A-1'' = Some workedUnit \<and>
   fst (addUnitToFirestore allAccepted ''A-1'' ''9 New St'' viewState) = True \<and>
   docs (fs (snd (addUnitToFirestore allAccepted ''A-1'' ''9 New St'' viewState))) ''A-1''
     = Some \<lparr>address = ''9 New St'', status = ''Not Started'', trades = defaultTrades\<rparr> \<and>
   docs (fs (snd (addUnitToFirestore allAccepted ''A-1'' ''9 New St'' viewState))) ''A-1''
     \<noteq> docs (fs viewState) ''A-1''"
  by (simp add: addUnitToFirestore_def setDoc_def showMessage_def viewState_def allAccepted_def
      truthy_string_def new_unit_def workedUnit_def)

text \<open>
  C1, amended. The function makes no check for an existing unit. With a unit of that name
  already in the store and the application initialised, the outcome follows the store's
  answer alone: when the write is accepted the function returns true and the stored
  document is replaced by the fresh unit (the new address, "Not Started", the default
  trades); when the write is rejected it returns false and every document is as before.
\<close>

theorem addUnit_existing_name:
  assumes "docs (fs s) n = Some d" and "db s" and "truthy_string (userId s)"
  shows "(case env (length (requests (fs s))) of
            None \<Rightarrow>
              fst (addUnitToFirestore env n a s) = True \<and>
              docs (fs (snd (addUnitToFirestore env n a s))) =
                (docs (fs s))(n \<mapsto> \<lparr>address = a, status = ''Not Started'', trades = defaultTrades\<rparr>)
          | Some m \<Rightarrow>
              fst (addUnitToFirestore env n a s) = False \<and>
              docs (fs (snd (addUnitToFirestore env n a s))) = docs (fs s))"
proof (cases "env (length (requests (fs s)))")
  case None
  then show ?thesis
    using assms addUnit_accepted [where s = s and env = env and n = n and a = a]
    by (simp add: new_unit_def)
next
  case (Some m)
  then show ?thesis
    using assms addUnit_rejected [where s = s and env = env and n = n and a = a and m = m]
    by simp
qed

theorem addUnit_existing_name_witness:
  "docs (fs viewState) ''A-1'' = Some workedUnit \<and> db viewState \<and>
   truthy_string (userId viewState) \<and>
   fst (addUnitToFirestore (\<lambda>k. Some ''offline'') ''A-1'' ''9 New St'' viewState) = False \<and>
   docs (fs (snd (addUnitToFirestore (\<lambda>k. Some ''offline'') ''A-1'' ''9 New St'' viewState)))
     = docs (fs viewState)"
proof -
  have h: "docs (fs viewState) ''A-1'' = Some workedUnit" "db viewState"
    "truthy_string (userId viewState)"
    by (simp_all add: viewState_def truthy_string_def)
  from h addUnit_existing_name
    [where s = viewState and n = "''A-1''" and d = workedUnit and env = "\<lambda>k. Some ''offline''"
       and a = "''9 New St''"]
  show ?thesis by simp
qed

section \<open>Bulk generation\<close>

subsection \<open>The two loops as one pass over the list of units\<close>

lemma unitLoop_createEach:
  "unitLoop env building i c s = createEach env (unitsOf building i) c s"
proof (induction env building i c s rule: unitLoop.induct)
  case (1 env building i c s)
  show ?case
  proof (cases "i \<le> 20")
    case True
    then have u: "unitsOf building i = (unitName building i, unitAddress building i) # unitsOf building (i + 1)"
      by (simp add: unitsOf_def upt_conv_Cons)
    show ?thesis
      using True 1 by (subst unitLoop.simps) (simp add: u Let_def)
  next
    case False
    then show ?thesis
      by (subst unitLoop.simps) (simp add: unitsOf_def)
  qed
qed

lemma createEach_append:
  "createEach env (xs @ ys) c s =
     (case createEach env xs c s of
        (True, c', s') \<Rightarrow> (True, c', s')
      | (False, c', s') \<Rightarrow> createEach env ys c' s')"
  by (induction xs arbitrary: c s) (simp_all add: Let_def)

lemma buildingLoop_createEach:
  "buildingLoop env bs c s = createEach env (concat (map (\<lambda>b. unitsOf b 1) bs)) c s"
  by (induction bs arbitrary: c s)
     (simp_all add: unitLoop_createEach createEach_append split: prod.splits bool.splits)

lemma unitNumbers: "map unitNumber [1..<21] =
  [''01'', ''02'', ''03'', ''04'', ''05'', ''06'', ''07'', ''08'', ''09'', ''10'',
   ''11'', ''12'', ''13'', ''14'', ''15'', ''16'', ''17'', ''18'', ''19'', ''20'']"
  by (simp add: upt_rec unitNumber_def show_nat.simps digit_char_def)

lemma length_generatedUnits: "length generatedUnits = 80"
  by (simp add: generatedUnits_def unitsOf_def buildingPrefixes_def)

lemma createEach_run:
  assumes "db s" and "truthy_string (userId s)" and "k \<le> length us"
    and "\<forall>j<k. env (length (requests (fs s)) + j) = None"
    and "k < length us \<longrightarrow> env (length (requests (fs s)) + k) = Some m"
  shows "createEach env us c s = (k < length us, c + k, afterRun m us k s)"
  using assms
proof (induction us arbitrary: s c k)
  case Nil
  then show ?case by (simp add: afterRun_def stopMessages_def)
next
  case (Cons u us)
  show ?case
  proof (cases k)
    case 0
    with Cons.prems have "env (length (requests (fs s))) = Some m" by simp
    with Cons.prems 0 show ?thesis
      by (simp add: addUnitToFirestore_def setDoc_def showMessage_def Let_def afterRun_def
          stopMessages_def)
  next
    case (Suc k')
    let ?r = "addUnitToFirestore env (fst u) (snd u) s"
    from Cons.prems Suc have acc: "env (length (requests (fs s))) = None" by auto
    have r: "?r = (True, s\<lparr>fs := \<lparr>docs = storeUnit u (docs (fs s)),
                                  requests = requests (fs s) @ [fst u]\<rparr>,
                           messages := messages s @ [addedMessage u]\<rparr>)"
      using Cons.prems acc
      by (simp add: addUnitToFirestore_def setDoc_def showMessage_def Let_def addedMessage_def
          storeUnit_def)
    have p1: "\<forall>j<k'. env (length (requests (fs (snd ?r))) + j) = None"
      using Cons.prems(4) Suc by (auto simp: r)
    have p2: "k' < length us \<longrightarrow> env (length (requests (fs (snd ?r))) + k') = Some m"
      using Cons.prems(5) Suc by (auto simp: r)
    have "createEach env us (c + 1) (snd ?r) = (k' < length us, c + 1 + k', afterRun m us k' (snd ?r))"
      using Cons.prems Suc p1 p2
      by (intro Cons.IH) (simp_all add: r)
    then show ?thesis
      using Suc by (simp add: r afterRun_def stopMessages_def)
  qed
qed

lemma generatedNames: "map fst generatedUnits =
  concat (map (\<lambda>p. map (\<lambda>nn. p @ ''-Unit'' @ nn)
     [''01'', ''02'', ''03'', ''04'', ''05'', ''06'', ''07'', ''08'', ''09'', ''10'',
      ''11'', ''12'', ''13'', ''14'', ''15'', ''16'', ''17'', ''18'', ''19'', ''20''])
     [''BuildingA'', ''BuildingB'', ''BuildingC'', ''BuildingD''])"
proof -
  have "map fst (unitsOf b 1) = map (\<lambda>nn. b @ ''-Unit'' @ nn) (map unitNumber [1..<21])" for b
    by (simp add: unitsOf_def unitName_def comp_def)
  then show ?thesis
    unfolding unitNumbers by (simp add: generatedUnits_def buildingPrefixes_def map_concat comp_def)
qed

lemma distinct_generatedNames: "distinct (map fst generatedUnits)"
  unfolding generatedNames by simp

lemma storeUnit_apply:
  "storeUnit u dm n = (if n = fst u then Some (new_unit (snd u)) else dm n)"
  by (simp add: storeUnit_def)

lemma fold_docs_other:
  "n \<notin> fst ` set xs \<Longrightarrow> fold storeUnit xs dm n = dm n"
  by (induction xs arbitrary: dm) (auto simp: storeUnit_apply)

lemma fold_docs_member:
  "distinct (map fst xs) \<Longrightarrow> (n, a) \<in> set xs \<Longrightarrow>
   fold storeUnit xs dm n = Some (new_unit a)"
proof (induction xs arbitrary: dm)
  case Nil
  then show ?case by simp
next
  case (Cons x xs)
  show ?case
  proof (cases "(n, a) = x")
    case True
    have "fst x \<notin> fst ` set xs"
      using Cons.prems(1) by simp
    then have "fold storeUnit xs (storeUnit x dm) (fst x) = storeUnit x dm (fst x)"
      by (rule fold_docs_other)
    moreover have "storeUnit x dm (fst x) = Some (new_unit (snd x))"
      by (simp add: storeUnit_def)
    moreover have "fold storeUnit (x # xs) dm = fold storeUnit xs (storeUnit x dm)"
      by simp
    ultimately have "fold storeUnit (x # xs) dm (fst x) = Some (new_unit (snd x))"
      by (simp only:)
    with True show ?thesis
      by (metis fst_conv snd_conv)
  next
    case False
    with Cons show ?thesis by auto
  qed
qed

lemma fold_docs_nth:
  assumes "distinct (map fst us)" and "j < length us"
  shows "fold storeUnit (take k us) dm (fst (us ! j)) =
         (if j < k then Some (new_unit (snd (us ! j))) else dm (fst (us ! j)))"
proof (cases "j < k")
  case True
  with assms have "us ! j \<in> set (take k us)"
    by (metis in_set_conv_nth length_take min_less_iff_conj nth_take)
  moreover have "distinct (map fst (take k us))"
    using assms(1) by (simp add: take_map [symmetric])
  ultimately show ?thesis
    using True fold_docs_member [of "take k us" "fst (us ! j)" "snd (us ! j)" dm] by simp
next
  case False
  have "fst (us ! j) \<notin> fst ` set (take k us)"
  proof
    assume "fst (us ! j) \<in> fst ` set (take k us)"
    then obtain i where i: "i < k" "i < length us" "fst (us ! i) = fst (us ! j)"
      by (auto simp: in_set_conv_nth)
    with assms have "i = j"
      by (metis length_map nth_eq_iff_index_eq nth_map)
    with i False show False by simp
  qed
  with False show ?thesis by (simp add: fold_docs_other)
qed

lemma show_nat_80: "show_nat 80 = ''80''"
  by (simp add: show_nat.simps digit_char_def)

lemma generate_run:
  assumes "db s" and "truthy_string (userId s)" and "k \<le> 80"
    and "\<forall>j<k. env (length (requests (fs s)) + j) = None"
    and "k < 80 \<longrightarrow> env (length (requests (fs s)) + k) = Some m"
  shows "buildingLoop env buildingPrefixes 0 (showMessage ''Generating units, please wait...'' Info s) =
           (k < 80, k, afterRun m generatedUnits k (showMessage ''Generating units, please wait...'' Info s))"
proof -
  let ?s0 = "showMessage ''Generating units, please wait...'' Info s"
  have "createEach env generatedUnits 0 ?s0 = (k < length generatedUnits, 0 + k, afterRun m generatedUnits k ?s0)"
    using assms by (intro createEach_run) (simp_all add: showMessage_def length_generatedUnits)
  moreover have "buildingLoop env buildingPrefixes 0 ?s0 = createEach env generatedUnits 0 ?s0"
    by (simp only: buildingLoop_createEach generatedUnits_def)
  ultimately show ?thesis
    by (simp add: length_generatedUnits)
qed

lemma generate_state:
  assumes "db s" and "truthy_string (userId s)" and "k \<le> 80"
    and "\<forall>j<k. env (length (requests (fs s)) + j) = None"
    and "k < 80 \<longrightarrow> env (length (requests (fs s)) + k) = Some m"
  shows "handleGenerateMultipleUnits env True s =
           (let s' = afterRun m generatedUnits k (showMessage ''Generating units, please wait...'' Info s)
            in if k < 80 then s' else showMessage ''Successfully added 80 units!'' Info s')"
  using assms generate_run [OF assms]
  by (auto simp: handleGenerateMultipleUnits_def Let_def show_nat_80)

lemma generatedUnits_explicit:
  "generatedUnits = concat (map (\<lambda>p. map (\<lambda>nn. (p @ ''-Unit'' @ nn, p @ '' Address, Unit '' @ nn))
     [''01'', ''02'', ''03'', ''04'', ''05'', ''06'', ''07'', ''08'', ''09'', ''10'',
      ''11'', ''12'', ''13'', ''14'', ''15'', ''16'', ''17'', ''18'', ''19'', ''20''])
     [''BuildingA'', ''BuildingB'', ''BuildingC'', ''BuildingD''])"
proof -
  have "unitsOf b 1 = map (\<lambda>nn. (b @ ''-Unit'' @ nn, b @ '' Address, Unit '' @ nn)) (map unitNumber [1..<21])" for b
    by (simp add: unitsOf_def unitName_def unitAddress_def comp_def)
  then show ?thesis
    unfolding unitNumbers by (simp add: generatedUnits_def buildingPrefixes_def)
qed

lemma failsAt_hyps:
  "db homeState" "truthy_string (userId homeState)"
  "\<forall>j<36. failsAt 36 (length (requests (fs homeState)) + j) = None"
  "(36::nat) < 80 \<longrightarrow> failsAt 36 (length (requests (fs homeState)) + 36) = Some ''unavailable''"
  by (simp_all add: homeState_def emptyStore_def truthy_string_def failsAt_def)

subsection \<open>What the handler does\<close>

text \<open>
  C3, as the spec states it, fails in its last part. When the 37th call is rejected, 36
  units have been created and the counter stands at 36, but the message shown at the stop
  names the unit that failed; no message of the whole run carries the number 36.
\<close>

theorem generate_stop_report_counterexample:
  "fst (snd (buildingLoop (failsAt 36) buildingPrefixes 0
               (showMessage ''Generating units, please wait...'' Info homeState))) = 36 \<and>
   last (messages (handleGenerateMultipleUnits (failsAt 36) True homeState)) =
     (''Failed to add unit BuildingB-Unit17. Stopping batch generation.'', Error) \<and>
   \<not> list_ex (\<lambda>m. sublist ''36'' (fst m))
        (messages (handleGenerateMultipleUnits (failsAt 36) True homeState))"
proof -
  have k: "(36::nat) \<le> 80" by simp
  note run = generate_run [OF failsAt_hyps(1,2) k failsAt_hyps(3,4)]
  note st = generate_state [OF failsAt_hyps(1,2) k failsAt_hyps(3,4)]
  have c: "fst (snd (buildingLoop (failsAt 36) buildingPrefixes 0
               (showMessage ''Generating units, please wait...'' Info homeState))) = 36"
    by (simp add: run)
  have m: "messages (handleGenerateMultipleUnits (failsAt 36) True homeState) =
     (''Generating units, please wait...'', Info) #
     map addedMessage (take 36 generatedUnits) @
     [(''Error adding unit: unavailable'', Error),
      (''Failed to add unit BuildingB-Unit17. Stopping batch generation.'', Error)]"
    by (subst st)
       (simp add: Let_def afterRun_def showMessage_def stopMessages_def homeState_def
          generatedUnits_explicit)
  have l: "last (messages (handleGenerateMultipleUnits (failsAt 36) True homeState)) =
     (''Failed to add unit BuildingB-Unit17. Stopping batch generation.'', Error)"
    unfolding m by simp
  have n: "\<not> list_ex (\<lambda>m. sublist ''36'' (fst m))
        (messages (handleGenerateMultipleUnits (failsAt 36) True homeState))"
    unfolding m by (simp add: generatedUnits_explicit addedMessage_def dquote_def sublist_code)
  show ?thesis using c l n by simp
qed

text \<open>
  C3, amended. The handler goes through the 80 units named \<open>{Prefix}-Unit{NN}\<close>, for the
  four prefixes BuildingA to BuildingD and \<open>NN\<close> from 01 to 20, in that order, one call of
  \<^verbatim>\<open>addUnitToFirestore\<close> each. Let the store accept the first \<open>k\<close> requests and, when
  \<open>k < 80\<close>, reject the next one. Then the store has received requests for exactly the first
  \<open>k + 1\<close> names (all 80 when \<open>k = 80\<close>), in order, and none for a later name; the first
  \<open>k\<close> units are stored with their default document and every other document is as before;
  the counter of units added is \<open>k\<close>. When all 80 calls succeed the last message is
  "Successfully added 80 units!"; when a call fails the last message is an error that
  names the unit whose creation failed, and gives no count.
\<close>

theorem generate_units:
  assumes "db s" and "truthy_string (userId s)" and "k \<le> 80"
    and "\<forall>j<k. env (length (requests (fs s)) + j) = None"
    and "k < 80 \<longrightarrow> env (length (requests (fs s)) + k) = Some m"
  shows "map fst generatedUnits =
           concat (map (\<lambda>p. map (\<lambda>nn. p @ ''-Unit'' @ nn)
             [''01'', ''02'', ''03'', ''04'', ''05'', ''06'', ''07'', ''08'', ''09'', ''10'',
              ''11'', ''12'', ''13'', ''14'', ''15'', ''16'', ''17'', ''18'', ''19'', ''20''])
             [''BuildingA'', ''BuildingB'', ''BuildingC'', ''BuildingD'']) \<and>
         length generatedUnits = 80 \<and> distinct (map fst generatedUnits) \<and>
         requests (fs (handleGenerateMultipleUnits env True s)) =
           requests (fs s) @ take (Suc k) (map fst generatedUnits) \<and>
         (\<forall>j<80. docs (fs (handleGenerateMultipleUnits env True s)) (fst (generatedUnits ! j)) =
            (if j < k then Some (new_unit (snd (generatedUnits ! j)))
             else docs (fs s) (fst (generatedUnits ! j)))) \<and>
         (\<forall>n. n \<notin> set (map fst generatedUnits) \<longrightarrow>
            docs (fs (handleGenerateMultipleUnits env True s)) n = docs (fs s) n) \<and>
         fst (snd (buildingLoop env buildingPrefixes 0
                     (showMessage ''Generating units, please wait...'' Info s))) = k \<and>
         last (messages (handleGenerateMultipleUnits env True s)) =
           (if k = 80 then (''Successfully added 80 units!'', Info)
            else (''Failed to add unit '' @ fst (generatedUnits ! k) @ ''. Stopping batch generation.'', Error))"
proof -
  let ?s' = "handleGenerateMultipleUnits env True s"
  note st = generate_state [OF assms]
  have req: "requests (fs ?s') = requests (fs s) @ take (Suc k) (map fst generatedUnits)"
    by (simp add: st Let_def afterRun_def showMessage_def take_map)
  have dcs: "docs (fs ?s') = fold storeUnit (take k generatedUnits) (docs (fs s))"
    by (simp add: st Let_def afterRun_def showMessage_def)
  have d1: "\<forall>j<80. docs (fs ?s') (fst (generatedUnits ! j)) =
            (if j < k then Some (new_unit (snd (generatedUnits ! j)))
             else docs (fs s) (fst (generatedUnits ! j)))"
  proof (intro allI impI)
    fix j :: nat
    assume "j < 80"
    then show "docs (fs ?s') (fst (generatedUnits ! j)) =
            (if j < k then Some (new_unit (snd (generatedUnits ! j)))
             else docs (fs s) (fst (generatedUnits ! j)))"
      unfolding dcs
      by (intro fold_docs_nth [OF distinct_generatedNames]) (simp add: length_generatedUnits)
  qed
  have d2: "\<forall>n. n \<notin> set (map fst generatedUnits) \<longrightarrow> docs (fs ?s') n = docs (fs s) n"
  proof (intro allI impI)
    fix n assume "n \<notin> set (map fst generatedUnits)"
    then have "n \<notin> fst ` set (take k generatedUnits)"
      by (auto dest: in_set_takeD)
    then show "docs (fs ?s') n = docs (fs s) n"
      unfolding dcs by (rule fold_docs_other)
  qed
  have cnt: "fst (snd (buildingLoop env buildingPrefixes 0
                     (showMessage ''Generating units, please wait...'' Info s))) = k"
    by (simp add: generate_run [OF assms])
  have lst: "last (messages ?s') =
           (if k = 80 then (''Successfully added 80 units!'', Info)
            else (''Failed to add unit '' @ fst (generatedUnits ! k) @ ''. Stopping batch generation.'', Error))"
    using assms(3)
    by (simp add: st Let_def afterRun_def showMessage_def stopMessages_def length_generatedUnits)
  show ?thesis
    using generatedNames length_generatedUnits distinct_generatedNames req d1 d2 cnt lst
    by blast
qed

theorem generate_units_witness:
  "db homeState \<and> truthy_string (userId homeState) \<and> (36::nat) \<le> 80 \<and>
   list_all (\<lambda>j. failsAt 36 (length (requests (fs homeState)) + j) = None) [0..<36] \<and>
   failsAt 36 (length (requests (fs homeState)) + 36) = Some ''unavailable'' \<and>
   length (requests (fs (handleGenerateMultipleUnits (failsAt 36) True homeState))) = 37 \<and>
   docs (fs (handleGenerateMultipleUnits (failsAt 36) True homeState)) ''BuildingB-Unit16''
     = Some (new_unit ''BuildingB Address, Unit 16'') \<and>
   docs (fs (handleGenerateMultipleUnits (failsAt 36) True homeState)) ''BuildingB-Unit17'' = None \<and>
   last (messages (handleGenerateMultipleUnits (failsAt 36) True homeState)) =
     (''Failed to add unit BuildingB-Unit17. Stopping batch generation.'', Error)"
proof -
  have k: "(36::nat) \<le> 80" by simp
  note g = generate_units [OF failsAt_hyps(1,2) k failsAt_hyps(3,4)]
  have n35: "generatedUnits ! 35 = (''BuildingB-Unit16'', ''BuildingB Address, Unit 16'')"
    and n36: "generatedUnits ! 36 = (''BuildingB-Unit17'', ''BuildingB Address, Unit 17'')"
    by (simp_all add: generatedUnits_explicit)
  have h4: "list_all (\<lambda>j. failsAt 36 (length (requests (fs homeState)) + j) = None) [0..<36]"
    using failsAt_hyps(3) by (simp add: list_all_iff)
  have h5: "failsAt 36 (length (requests (fs homeState)) + 36) = Some ''unavailable''"
    using failsAt_hyps(4) by simp
  have r: "length (requests (fs (handleGenerateMultipleUnits (failsAt 36) True homeState))) = 37"
    using g by (simp add: homeState_def emptyStore_def)
  from g have "\<forall>j<80. docs (fs (handleGenerateMultipleUnits (failsAt 36) True homeState)) (fst (generatedUnits ! j)) =
            (if j < 36 then Some (new_unit (snd (generatedUnits ! j)))
             else docs (fs homeState) (fst (generatedUnits ! j)))"
    by blast
  then have d35: "docs (fs (handleGenerateMultipleUnits (failsAt 36) True homeState)) (fst (generatedUnits ! 35)) =
            (if (35::nat) < 36 then Some (new_unit (snd (generatedUnits ! 35)))
             else docs (fs homeState) (fst (generatedUnits ! 35)))"
     and d36: "docs (fs (handleGenerateMultipleUnits (failsAt 36) True homeState)) (fst (generatedUnits ! 36)) =
            (if (36::nat) < 36 then Some (new_unit (snd (generatedUnits ! 36)))
             else docs (fs homeState) (fst (generatedUnits ! 36)))"
    by simp_all
  have l: "last (messages (handleGenerateMultipleUnits (failsAt 36) True homeState)) =
     (''Failed to add unit BuildingB-Unit17. Stopping batch generation.'', Error)"
    using g by (simp add: n36)
  show ?thesis
    using failsAt_hyps(1,2) h4 h5 r d35 d36 l
    by (simp add: n35 n36 homeState_def emptyStore_def)
qed

section \<open>Task mutations: helper facts\<close>

lemma flip_flip: "flip (flip t) = t"
  by (simp add: flip_def)

lemma updateDoc_accepted:
  assumes "env (length (requests f)) = None" and "docs f key = Some d"
  shows "updateDoc env key tm f =
           (None, \<lparr>docs = (docs f)(key \<mapsto> d\<lparr>trades := tm\<rparr>), requests = requests f @ [key]\<rparr>)"
  using assms by (simp add: updateDoc_def Let_def)

lemma updateDoc_missing:
  assumes "env (length (requests f)) = None" and "docs f key = None"
  shows "updateDoc env key tm f =
           (Some ''No document to update'', \<lparr>docs = docs f, requests = requests f @ [key]\<rparr>)"
  using assms by (simp add: updateDoc_def Let_def)

lemma updateDoc_rejected:
  assumes "env (length (requests f)) = Some m"
  shows "updateDoc env key tm f = (Some m, \<lparr>docs = docs f, requests = requests f @ [key]\<rparr>)"
  using assms by (simp add: updateDoc_def Let_def)

lemma toggle_accepted:
  assumes "db s" and "unitData s = Some ud" and "trades ud tn = Some ts" and "i < length ts"
    and "env (length (requests (fs s))) = None" and "docs (fs s) (unitId s) = Some d"
  shows "handleTaskToggle env tn i s =
     Inr (s\<lparr>unitData := Some (ud\<lparr>trades := (trades ud)(tn \<mapsto> ts[i := flip (ts ! i)])\<rparr>),
            fs := \<lparr>docs = (docs (fs s))(unitId s \<mapsto> d\<lparr>trades := (trades ud)(tn \<mapsto> ts[i := flip (ts ! i)])\<rparr>),
                   requests = requests (fs s) @ [unitId s]\<rparr>,
            messages := messages s @ [(''Task updated for '' @ tn @ ''!'', Info)]\<rparr>)"
  using assms
  by (simp add: handleTaskToggle_def Let_def updateDoc_accepted showMessage_def)

lemma toggle_missing_unit:
  assumes "db s" and "unitData s = Some ud" and "trades ud tn = Some ts" and "i < length ts"
    and "env (length (requests (fs s))) = None" and "docs (fs s) (unitId s) = None"
  shows "handleTaskToggle env tn i s =
     Inr (s\<lparr>unitData := Some (ud\<lparr>trades := (trades ud)(tn \<mapsto> ts[i := flip (ts ! i)])\<rparr>),
            fs := \<lparr>docs = docs (fs s), requests = requests (fs s) @ [unitId s]\<rparr>,
            messages := messages s @ [(''Error updating task: No document to update'', Error)]\<rparr>)"
  using assms
  by (simp add: handleTaskToggle_def Let_def updateDoc_missing showMessage_def)

lemma toggle_rejected:
  assumes "db s" and "unitData s = Some ud" and "trades ud tn = Some ts" and "i < length ts"
    and "env (length (requests (fs s))) = Some m"
  shows "handleTaskToggle env tn i s =
     Inr (s\<lparr>unitData := Some (ud\<lparr>trades := (trades ud)(tn \<mapsto> ts[i := flip (ts ! i)])\<rparr>),
            fs := \<lparr>docs = docs (fs s), requests = requests (fs s) @ [unitId s]\<rparr>,
            messages := messages s @ [(''Error updating task: '' @ m, Error)]\<rparr>)"
  using assms
  by (simp add: handleTaskToggle_def Let_def updateDoc_rejected showMessage_def)

lemma addTask_accepted:
  assumes "db s" and "unitData s = Some ud" and "selectedTrade s \<noteq> []" and "txt \<noteq> []"
    and "env (length (requests (fs s))) = None" and "docs (fs s) (unitId s) = Some d"
  shows "handleAddTask env (Some txt) s =
     s\<lparr>fs := \<lparr>docs = (docs (fs s))(unitId s \<mapsto>
                  d\<lparr>trades := (trades ud)(selectedTrade s \<mapsto>
                       tasksOf (trades ud) (selectedTrade s) @ [\<lparr>task = JStr txt, completed = False\<rparr>])\<rparr>),
              requests = requests (fs s) @ [unitId s]\<rparr>,
       messages := messages s @
         [(''Task '' @ dquote @ txt @ dquote @ '' added to '' @ selectedTrade s @ ''!'', Info)]\<rparr>"
  using assms
  by (simp add: handleAddTask_def truthy_string_def Let_def updateDoc_accepted showMessage_def)

lemma viewState_facts:
  "db viewState" "unitData viewState = Some workedUnit" "selectedTrade viewState \<noteq> []"
  "allAccepted (length (requests (fs viewState))) = None"
  "docs (fs viewState) (unitId viewState) = Some workedUnit"
  "unitId viewState = ''A-1''" "selectedTrade viewState = ''Electrical''"
  by (simp_all add: viewState_def allAccepted_def)

lemma workedUnit_Electrical:
  "tasksOf (trades workedUnit) ''Electrical'' =
     [\<lparr>task = JStr ''Rough-in wiring'', completed = True\<rparr>,
      \<lparr>task = JStr ''Fixture installation'', completed = False\<rparr>]"
  by (simp add: tasksOf_def workedUnit_def workedTrades_def mk_task_def)


section \<open>Toggling a task\<close>

text \<open>
  C2, as the spec states it, fails. Another writer has removed the trade Electrical from
  the stored unit while the component still shows it: at write time the trade is no key
  of the stored trades map. The toggle reports no failure: it writes the component's
  whole trades map, the stored unit has the trade again, and the message is the success
  "Task updated for Electrical!".
\<close>

theorem toggle_stale_store_counterexample:
  "map_option (\<lambda>d. trades d ''Electrical'') (docs (fs staleView) ''A-1'') = Some None \<and>
   (\<exists>s'. handleTaskToggle allAccepted ''Electrical'' 0 staleView = Inr s' \<and>
      last (messages s') = (''Task updated for Electrical!'', Info) \<and>
      map_option (\<lambda>d. trades d ''Electrical'') (docs (fs s') ''A-1'') =
        Some (Some [\<lparr>task = JStr ''Rough-in wiring'', completed = False\<rparr>,
                    \<lparr>task = JStr ''Fixture installation'', completed = False\<rparr>]))"
proof -
  have h: "db staleView" "unitData staleView = Some workedUnit"
    "trades workedUnit ''Electrical'' =
       Some [\<lparr>task = JStr ''Rough-in wiring'', completed = True\<rparr>,
             \<lparr>task = JStr ''Fixture installation'', completed = False\<rparr>]"
    "0 < length [\<lparr>task = JStr ''Rough-in wiring'', completed = True\<rparr>,
             \<lparr>task = JStr ''Fixture installation'', completed = False\<rparr>]"
    "allAccepted (length (requests (fs staleView))) = None"
    "docs (fs staleView) (unitId staleView) =
       Some (workedUnit\<lparr>trades := workedTrades(''Electrical'' := None)\<rparr>)"
    by (simp_all add: staleView_def viewState_def workedUnit_def workedTrades_def mk_task_def
        allAccepted_def)
  have a: "map_option (\<lambda>d. trades d ''Electrical'') (docs (fs staleView) ''A-1'') = Some None"
    by (simp add: staleView_def)
  have u: "unitId staleView = ''A-1''"
    by (simp add: staleView_def viewState_def)
  note t = toggle_accepted [where env = allAccepted, OF h]
  show ?thesis
    unfolding t by (simp add: a u flip_def)
qed

text \<open>
  C2, amended. For a trade and an index that are valid in the component's \<open>unitData\<close>
  (what the task list passes to the handler), \<^verbatim>\<open>handleTaskToggle\<close> always returns
  normally after exactly one write request. When the store rejects the write, or the
  unit's document no longer exists, the documents are unchanged and the message is the
  error "Error updating task: ..."; otherwise the stored unit gets the component's trades
  map with the one task flipped, whatever trades the store held (last write wins), and
  the message is the success "Task updated for ...!".
\<close>

theorem toggle_reports_store_failures:
  assumes "db s" and "unitData s = Some ud" and "trades ud tn = Some ts" and "i < length ts"
  shows "\<exists>s'. handleTaskToggle env tn i s = Inr s' \<and>
     requests (fs s') = requests (fs s) @ [unitId s] \<and>
     (case env (length (requests (fs s))) of
        Some m \<Rightarrow>
          docs (fs s') = docs (fs s) \<and>
          last (messages s') = (''Error updating task: '' @ m, Error)
      | None \<Rightarrow>
          (case docs (fs s) (unitId s) of
             None \<Rightarrow>
               docs (fs s') = docs (fs s) \<and>
               last (messages s') = (''Error updating task: No document to update'', Error)
           | Some d \<Rightarrow>
               docs (fs s') = (docs (fs s))(unitId s \<mapsto>
                  d\<lparr>trades := (trades ud)(tn \<mapsto> ts[i := (ts ! i)\<lparr>completed := \<not> completed (ts ! i)\<rparr>])\<rparr>) \<and>
               last (messages s') = (''Task updated for '' @ tn @ ''!'', Info)))"
proof (cases "env (length (requests (fs s)))")
  case (Some m)
  from toggle_rejected [where env = env, OF assms Some] Some show ?thesis
    by simp
next
  case None
  show ?thesis
  proof (cases "docs (fs s) (unitId s)")
    case missing: None
    from toggle_missing_unit [where env = env, OF assms None missing] None missing show ?thesis
      by simp
  next
    case (Some d)
    from toggle_accepted [where env = env, OF assms None Some] None Some show ?thesis
      by (simp add: flip_def)
  qed
qed

theorem toggle_reports_store_failures_witness:
  "db orphanView \<and> unitData orphanView = Some workedUnit \<and>
   trades workedUnit ''Electrical'' =
     Some [\<lparr>task = JStr ''Rough-in wiring'', completed = True\<rparr>,
           \<lparr>task = JStr ''Fixture installation'', completed = False\<rparr>] \<and>
   docs (fs orphanView) (unitId orphanView) = None \<and>
   (\<exists>s'. handleTaskToggle allAccepted ''Electrical'' 1 orphanView = Inr s' \<and>
      docs (fs s') = docs (fs orphanView) \<and>
      last (messages s') = (''Error updating task: No document to update'', Error)) \<and>
   db viewState \<and> unitData viewState = Some workedUnit \<and>
   failsAt 0 (length (requests (fs viewState))) = Some ''unavailable'' \<and>
   (\<exists>s'. handleTaskToggle (failsAt 0) ''Electrical'' 1 viewState = Inr s' \<and>
      docs (fs s') = docs (fs viewState) \<and>
      last (messages s') = (''Error updating task: unavailable'', Error))"
proof -
  let ?ts = "[\<lparr>task = JStr ''Rough-in wiring'', completed = True\<rparr>,
              \<lparr>task = JStr ''Fixture installation'', completed = False\<rparr>]"
  have el: "trades workedUnit ''Electrical'' = Some ?ts" and i: "1 < length ?ts"
    by (simp_all add: workedUnit_def workedTrades_def mk_task_def)
  have o: "db orphanView" "unitData orphanView = Some workedUnit"
    and od: "docs (fs orphanView) (unitId orphanView) = None"
    and oe: "allAccepted (length (requests (fs orphanView))) = None"
    by (simp_all add: orphanView_def viewState_def emptyStore_def allAccepted_def)
  have v: "db viewState" "unitData viewState = Some workedUnit"
    and ve: "failsAt 0 (length (requests (fs viewState))) = Some ''unavailable''"
    by (simp_all add: viewState_def failsAt_def)
  from toggle_reports_store_failures [where env = allAccepted, OF o el i]
  have 1: "\<exists>s'. handleTaskToggle allAccepted ''Electrical'' 1 orphanView = Inr s' \<and>
      docs (fs s') = docs (fs orphanView) \<and>
      last (messages s') = (''Error updating task: No document to update'', Error)"
    by (auto simp: oe od)
  from toggle_reports_store_failures [where env = "failsAt 0", OF v el i]
  have 2: "\<exists>s'. handleTaskToggle (failsAt 0) ''Electrical'' 1 viewState = Inr s' \<and>
      docs (fs s') = docs (fs viewState) \<and>
      last (messages s') = (''Error updating task: unavailable'', Error)"
    by (auto simp: ve)
  show ?thesis
    using o od v ve el 1 2 by simp
qed

text \<open>
  C5. Toggling the same task twice restores it. Let the unit be in the store, the trade
  and the index be valid in the component's \<open>unitData\<close>, and the store accept both
  writes; the live snapshot may or may not be delivered between the two toggles
  (\<open>refresh\<close>). Then both toggles return normally; after the first, the stored task list
  has exactly that task's \<open>completed\<close> flipped; after the second, the stored unit has
  again the trades map the component started from, and so has \<open>unitData\<close>. When the
  component was in step with the store, the documents of the store and \<open>unitData\<close> are
  exactly as before.
\<close>

theorem double_toggle:
  assumes "db s" and "unitData s = Some ud" and "docs (fs s) (unitId s) = Some d"
    and "trades ud tn = Some ts" and "i < length ts"
    and "env (length (requests (fs s))) = None"
    and "env (Suc (length (requests (fs s)))) = None"
  shows "\<exists>s1 s2.
     handleTaskToggle env tn i s = Inr s1 \<and>
     handleTaskToggle env tn i (if refresh then onUnitSnapshot ft s1 else s1) = Inr s2 \<and>
     map_option (\<lambda>x. map completed (tasksOf (trades x) tn)) (docs (fs s1) (unitId s)) =
       Some ((map completed ts)[i := \<not> completed (ts ! i)]) \<and>
     docs (fs s2) = (docs (fs s))(unitId s \<mapsto> d\<lparr>trades := trades ud\<rparr>) \<and>
     map_option trades (unitData s2) = Some (trades ud) \<and>
     (d = ud \<longrightarrow> docs (fs s2) = docs (fs s) \<and> unitData s2 = unitData s) \<and>
     db s2 = db s \<and> userId s2 = userId s \<and> unitId s2 = unitId s"
proof -
  let ?ts1 = "ts[i := flip (ts ! i)]"
  let ?tm1 = "(trades ud)(tn \<mapsto> ?ts1)"
  let ?s1 = "s\<lparr>unitData := Some (ud\<lparr>trades := ?tm1\<rparr>),
            fs := \<lparr>docs = (docs (fs s))(unitId s \<mapsto> d\<lparr>trades := ?tm1\<rparr>),
                   requests = requests (fs s) @ [unitId s]\<rparr>,
            messages := messages s @ [(''Task updated for '' @ tn @ ''!'', Info)]\<rparr>"
  let ?v = "if refresh then onUnitSnapshot ft ?s1 else ?s1"
  have undo: "?ts1[i := flip (?ts1 ! i)] = ts"
    using assms(5) by (simp add: flip_flip)
  have tm: "?tm1(tn \<mapsto> ts) = trades ud"
    using assms(4) by (simp add: map_upd_triv)
  have 1: "handleTaskToggle env tn i s = Inr ?s1"
    using assms by (intro toggle_accepted) simp_all
  let ?ud1 = "if refresh then d\<lparr>trades := ?tm1\<rparr> else ud\<lparr>trades := ?tm1\<rparr>"
  have ud1: "unitData ?v = Some ?ud1" "trades ?ud1 = ?tm1"
    using assms(3) by (simp_all add: onUnitSnapshot_def)
  have v: "db ?v" "trades ?ud1 tn = Some ?ts1" "i < length ?ts1"
    "env (length (requests (fs ?v))) = None"
    "docs (fs ?v) (unitId ?v) = Some (d\<lparr>trades := ?tm1\<rparr>)"
    using assms by (simp_all add: onUnitSnapshot_def)
  let ?s2 = "?v\<lparr>unitData := Some (?ud1\<lparr>trades := (trades ?ud1)(tn \<mapsto> ?ts1[i := flip (?ts1 ! i)])\<rparr>),
            fs := \<lparr>docs = (docs (fs ?v))(unitId ?v \<mapsto>
                           d\<lparr>trades := ?tm1, trades := (trades ?ud1)(tn \<mapsto> ?ts1[i := flip (?ts1 ! i)])\<rparr>),
                   requests = requests (fs ?v) @ [unitId ?v]\<rparr>,
            messages := messages ?v @ [(''Task updated for '' @ tn @ ''!'', Info)]\<rparr>"
  have 2: "handleTaskToggle env tn i ?v = Inr ?s2"
    by (rule toggle_accepted [where env = env, OF v(1) ud1(1) v(2,3,4,5)])
  have mid: "map_option (\<lambda>x. map completed (tasksOf (trades x) tn)) (docs (fs ?s1) (unitId s)) =
       Some ((map completed ts)[i := \<not> completed (ts ! i)])"
    using assms(5) by (simp add: tasksOf_def flip_def map_update)
  have new: "(trades ?ud1)(tn \<mapsto> ?ts1[i := flip (?ts1 ! i)]) = trades ud"
    unfolding ud1(2) undo using tm by simp
  have fin: "docs (fs ?s2) = (docs (fs s))(unitId s \<mapsto> d\<lparr>trades := trades ud\<rparr>)"
    unfolding new by (simp add: onUnitSnapshot_def)
  have loc: "map_option trades (unitData ?s2) = Some (trades ud)"
    unfolding new by simp
  have sync: "d = ud \<longrightarrow> docs (fs ?s2) = docs (fs s) \<and> unitData ?s2 = unitData s"
    unfolding new using assms(2,3) by (auto simp: onUnitSnapshot_def map_upd_triv)
  have rest: "db ?s2 = db s \<and> userId ?s2 = userId s \<and> unitId ?s2 = unitId s"
    by (simp add: onUnitSnapshot_def)
  show ?thesis
    using 1 2 mid fin loc sync rest by blast
qed

theorem double_toggle_witness:
  "db viewState \<and> unitData viewState = Some workedUnit \<and>
   docs (fs viewState) (unitId viewState) = Some workedUnit \<and>
   trades workedUnit ''Electrical'' =
     Some [\<lparr>task = JStr ''Rough-in wiring'', completed = True\<rparr>, mk_task ''Fixture installation''] \<and>
   allAccepted (length (requests (fs viewState))) = None \<and>
   allAccepted (Suc (length (requests (fs viewState)))) = None \<and>
   (\<exists>s1 s2.
      handleTaskToggle allAccepted ''Electrical'' 0 viewState = Inr s1 \<and>
      handleTaskToggle allAccepted ''Electrical'' 0 (onUnitSnapshot None s1) = Inr s2 \<and>
      map_option (\<lambda>x. map completed (tasksOf (trades x) ''Electrical'')) (docs (fs s1) ''A-1'') =
        Some [False, False] \<and>
      docs (fs s2) = docs (fs viewState) \<and> unitData s2 = unitData viewState)"
proof -
  have h: "db viewState" "unitData viewState = Some workedUnit"
    "docs (fs viewState) (unitId viewState) = Some workedUnit"
    "trades workedUnit ''Electrical'' =
       Some [\<lparr>task = JStr ''Rough-in wiring'', completed = True\<rparr>, mk_task ''Fixture installation'']"
    "0 < length [\<lparr>task = JStr ''Rough-in wiring'', completed = True\<rparr>, mk_task ''Fixture installation'']"
    "allAccepted (length (requests (fs viewState))) = None"
    "allAccepted (Suc (length (requests (fs viewState)))) = None"
    by (simp_all add: viewState_def workedUnit_def workedTrades_def allAccepted_def)
  from double_toggle [where env = allAccepted and refresh = True and ft = None, OF h]
  obtain s1 s2 where
    "handleTaskToggle allAccepted ''Electrical'' 0 viewState = Inr s1"
    "handleTaskToggle allAccepted ''Electrical'' 0 (onUnitSnapshot None s1) = Inr s2"
    "map_option (\<lambda>x. map completed (tasksOf (trades x) ''Electrical'')) (docs (fs s1) (unitId viewState)) =
        Some ((map completed [\<lparr>task = JStr ''Rough-in wiring'', completed = True\<rparr>, mk_task ''Fixture installation''])
                [0 := \<not> completed (\<lparr>task = JStr ''Rough-in wiring'', completed = True\<rparr>)])"
    "docs (fs s2) = docs (fs viewState)" "unitData s2 = unitData viewState"
    by auto
  moreover have "unitId viewState = ''A-1''"
    by (simp add: viewState_def)
  ultimately show ?thesis
    using h by (auto simp: mk_task_def)
qed


section \<open>Adding a task\<close>

text \<open>
  C8. With a unit loaded, a trade selected, a non-empty task text and a store that holds
  the unit and accepts the write, \<^verbatim>\<open>handleAddTask\<close> requests one write, of the full
  trades map in which the selected trade's list is the old list (the empty list when the
  trade was not a key) followed by the one entry \<open>{task: text, completed: false}\<close>: the
  list is one longer, its old entries keep their places, the new entry is last.
\<close>

theorem addTask_appends:
  assumes "db s" and "unitData s = Some ud" and "selectedTrade s \<noteq> []" and "txt \<noteq> []"
    and "env (length (requests (fs s))) = None" and "docs (fs s) (unitId s) = Some d"
  shows "\<exists>d'. docs (fs (handleAddTask env (Some txt) s)) (unitId s) = Some d' \<and>
     trades d' = (trades ud)(selectedTrade s \<mapsto>
        tasksOf (trades ud) (selectedTrade s) @ [\<lparr>task = JStr txt, completed = False\<rparr>]) \<and>
     tasksOf (trades d') (selectedTrade s) =
        tasksOf (trades ud) (selectedTrade s) @ [\<lparr>task = JStr txt, completed = False\<rparr>] \<and>
     length (tasksOf (trades d') (selectedTrade s)) = Suc (length (tasksOf (trades ud) (selectedTrade s))) \<and>
     take (length (tasksOf (trades ud) (selectedTrade s))) (tasksOf (trades d') (selectedTrade s)) =
        tasksOf (trades ud) (selectedTrade s) \<and>
     last (tasksOf (trades d') (selectedTrade s)) = \<lparr>task = JStr txt, completed = False\<rparr> \<and>
     (trades ud (selectedTrade s) = None \<longrightarrow>
        trades d' (selectedTrade s) = Some [\<lparr>task = JStr txt, completed = False\<rparr>]) \<and>
     requests (fs (handleAddTask env (Some txt) s)) = requests (fs s) @ [unitId s]"
  unfolding addTask_accepted [where env = env, OF assms]
  by (simp add: tasksOf_def)

theorem addTask_appends_witness:
  "db viewState \<and> unitData viewState = Some workedUnit \<and> selectedTrade viewState \<noteq> [] \<and>
   ''Install panel'' \<noteq> [] \<and> allAccepted (length (requests (fs viewState))) = None \<and>
   docs (fs viewState) (unitId viewState) = Some workedUnit \<and>
   (\<exists>d'. docs (fs (handleAddTask allAccepted (Some ''Install panel'') viewState)) ''A-1'' = Some d' \<and>
      trades d' ''Electrical'' =
        Some [\<lparr>task = JStr ''Rough-in wiring'', completed = True\<rparr>,
              \<lparr>task = JStr ''Fixture installation'', completed = False\<rparr>,
              \<lparr>task = JStr ''Install panel'', completed = False\<rparr>])"
proof -
  have h: "db viewState" "unitData viewState = Some workedUnit" "selectedTrade viewState \<noteq> []"
    "''Install panel'' \<noteq> []" "allAccepted (length (requests (fs viewState))) = None"
    "docs (fs viewState) (unitId viewState) = Some workedUnit"
    by (simp_all add: viewState_def allAccepted_def)
  from addTask_appends [where env = allAccepted, OF h]
  obtain d' where
    "docs (fs (handleAddTask allAccepted (Some ''Install panel'') viewState)) (unitId viewState) = Some d'"
    "trades d' = (trades workedUnit)(selectedTrade viewState \<mapsto>
        tasksOf (trades workedUnit) (selectedTrade viewState) @ [\<lparr>task = JStr ''Install panel'', completed = False\<rparr>])"
    by auto
  moreover have "unitId viewState = ''A-1''" "selectedTrade viewState = ''Electrical''"
    by (simp_all add: viewState_def)
  ultimately show ?thesis
    using h by (auto simp: tasksOf_def workedUnit_def workedTrades_def mk_task_def)
qed


section \<open>Suggested tasks: helper facts\<close>

lemma strict_eq_JStr: "strict_eq v (JStr x) = (v = JStr x)"
  by (cases v) auto

lemma existing_JStr:
  "list_ex (\<lambda>existing. strict_eq (task existing) (JStr x)) old = (JStr x \<in> task ` set old)"
  by (force simp: list_ex_iff strict_eq_JStr)

lemma newTasksToAdd_strings:
  "newTasksToAdd old (map JStr suggestions) =
     map mk_task (filter (\<lambda>x. JStr x \<notin> task ` set old) suggestions)"
  by (simp add: newTasksToAdd_def filter_map comp_def existing_JStr mk_task_def)

lemma response_text_geminiResponse: "response_text coerce (geminiResponse t) = Inr (Some t)"
  by (simp add: response_text_def geminiResponse_def bind_exn_def own_def)

lemma fetchedText_parsed:
  "suggestedTasksOf coerce exampleParse (fetchedText t) =
     (case exampleParse (JStr t) of Inl m \<Rightarrow> Inl (Thrown m) | Inr v \<Rightarrow> Inr (Some v))"
  by (simp add: suggestedTasksOf_def fetchedText_def response_text_geminiResponse)

lemma example_parses:
  "exampleParse (JStr ''[1]'') = Inr (JArr [JNum 1])"
  "exampleParse (JStr ''[]'') = Inr (JArr [])"
  "exampleParse (JStr (quoted ''abc'')) = Inr (JStr ''abc'')"
  "exampleParse (JStr knownText) = Inr (JArr (map JStr [''Rough-in wiring'', ''Fixture installation'']))"
  "exampleParse (JStr mixedText) = Inr (JArr (map JStr [''Rough-in wiring'', ''Install conduit'']))"
  "exampleParse (JStr lowerText) = Inr (JArr (map JStr [''rough-in wiring'']))"
  "exampleParse (JStr twiceText) = Inr (JArr [JStr ''Install conduit'', JStr ''Install conduit''])"
  "exampleParse (JStr ''not json'') = Inl ''Unexpected token''"
  by (simp_all add: exampleParse_def knownText_def mixedText_def lowerText_def twiceText_def
      quoted_def dquote_def)

lemma suggest_nothing_new:
  assumes "db s" and "unitData s = Some ud" and "selectedTrade s \<noteq> []"
    and "suggestedTasksOf coerce jsonParse fetched = Inr (Some (JArr xs))" and "xs \<noteq> []"
    and "newTasksToAdd (tasksOf (trades ud) (selectedTrade s)) xs = []"
  shows "handleSuggestTasks env coerce jsonParse fetched s =
     s\<lparr>messages := messages s @ [generatingMessage s, (''No new unique tasks were suggested.'', Info)],
       isGeneratingTasks := False\<rparr>"
  using assms
  by (simp add: handleSuggestTasks_def appendSuggested_def Let_def showMessage_def generatingMessage_def)

lemma suggest_written:
  assumes "db s" and "unitData s = Some ud" and "selectedTrade s \<noteq> []"
    and "suggestedTasksOf coerce jsonParse fetched = Inr (Some (JArr xs))"
    and "newTasksToAdd (tasksOf (trades ud) (selectedTrade s)) xs \<noteq> []"
    and "env (length (requests (fs s))) = None" and "docs (fs s) (unitId s) = Some d"
  shows "handleSuggestTasks env coerce jsonParse fetched s =
     s\<lparr>fs := \<lparr>docs = (docs (fs s))(unitId s \<mapsto>
                  d\<lparr>trades := (trades ud)(selectedTrade s \<mapsto>
                       tasksOf (trades ud) (selectedTrade s) @
                       newTasksToAdd (tasksOf (trades ud) (selectedTrade s)) xs)\<rparr>),
              requests = requests (fs s) @ [unitId s]\<rparr>,
       messages := messages s @
         [generatingMessage s, (''Suggested tasks added for '' @ selectedTrade s @ ''!'', Info)],
       isGeneratingTasks := False\<rparr>"
proof -
  have "xs \<noteq> []"
    using assms(5) by (auto simp: newTasksToAdd_def)
  then show ?thesis
    using assms
    by (simp add: handleSuggestTasks_def appendSuggested_def Let_def showMessage_def
        generatingMessage_def updateDoc_accepted)
qed

lemma suggest_requests:
  assumes "db s" and "unitData s = Some ud" and "selectedTrade s \<noteq> []"
    and "suggestedTasksOf coerce jsonParse fetched = Inr (Some (JArr xs))"
    and "newTasksToAdd (tasksOf (trades ud) (selectedTrade s)) xs \<noteq> []"
  shows "requests (fs (handleSuggestTasks env coerce jsonParse fetched s)) = requests (fs s) @ [unitId s]"
proof -
  have "xs \<noteq> []"
    using assms(5) by (auto simp: newTasksToAdd_def)
  then show ?thesis
    using assms
    by (simp add: handleSuggestTasks_def appendSuggested_def Let_def showMessage_def updateDoc_def
        split: option.splits)
qed

lemma suggest_failure:
  assumes "db s" and "unitData s = Some ud" and "selectedTrade s \<noteq> []"
    and "\<not> (\<exists>x xs. suggestedTasksOf coerce jsonParse fetched = Inr (Some (JArr (x # xs))))"
  shows "\<exists>txt. handleSuggestTasks env coerce jsonParse fetched s =
     s\<lparr>messages := messages s @ [generatingMessage s, (txt, Error)], isGeneratingTasks := False\<rparr>"
proof (cases "suggestedTasksOf coerce jsonParse fetched")
  case (Inl e)
  with assms have "handleSuggestTasks env coerce jsonParse fetched s =
     s\<lparr>messages := messages s @
         [generatingMessage s, (''Error suggesting tasks: '' @ error_message e, Error)],
       isGeneratingTasks := False\<rparr>"
    by (simp add: handleSuggestTasks_def Let_def showMessage_def generatingMessage_def)
  then show ?thesis by blast
next
  case (Inr r)
  show ?thesis
  proof (cases r)
    case None
    with Inr assms have "handleSuggestTasks env coerce jsonParse fetched s =
       s\<lparr>messages := messages s @
           [generatingMessage s,
            (''Failed to get task suggestions from Gemini. Please try again.'', Error)],
         isGeneratingTasks := False\<rparr>"
      by (simp add: handleSuggestTasks_def Let_def showMessage_def generatingMessage_def)
    then show ?thesis by blast
  next
    case (Some v)
    with Inr assms(4) have "\<not> (\<exists>x xs. v = JArr (x # xs))" by simp
    then have "appendSuggested env v ud s' =
       (None, showMessage ''Gemini did not return a valid list of tasks.'' Error s')" for s'
      by (cases v) (auto simp: appendSuggested_def neq_Nil_conv)
    with Inr Some assms have "handleSuggestTasks env coerce jsonParse fetched s =
       s\<lparr>messages := messages s @
           [generatingMessage s, (''Gemini did not return a valid list of tasks.'', Error)],
         isGeneratingTasks := False\<rparr>"
      by (simp add: handleSuggestTasks_def Let_def showMessage_def generatingMessage_def)
    then show ?thesis by blast
  qed
qed


lemma suggest_not_written:
  assumes "db s" and "unitData s = Some ud" and "selectedTrade s \<noteq> []"
    and "suggestedTasksOf coerce jsonParse fetched = Inr (Some (JArr xs))"
    and "newTasksToAdd (tasksOf (trades ud) (selectedTrade s)) xs = []"
  shows "fs (handleSuggestTasks env coerce jsonParse fetched s) = fs s"
proof (cases xs)
  case Nil
  with assms(4) have "\<not> (\<exists>y ys. suggestedTasksOf coerce jsonParse fetched = Inr (Some (JArr (y # ys))))"
    by simp
  from suggest_failure [OF assms(1,2,3) this, of env] show ?thesis
    by auto
next
  case (Cons y ys)
  then have "xs \<noteq> []" by simp
  from suggest_nothing_new [OF assms(1,2,3,4) this assms(5), of env] show ?thesis
    by simp
qed

section \<open>Appending suggested tasks\<close>

text \<open>
  C6. Let the response parse to a non-empty array of strings. A suggestion counts as known
  when it is equal, as a string, to the text of a task of the selected trade. When every
  suggestion is known, nothing is written (the store and \<open>unitData\<close> are as before) and
  the message is the information "No new unique tasks were suggested.", not an error.
  Otherwise one write is requested and, when the store accepts it, the trade's list is
  the old list followed by the suggestions that are not known, in their order, each with
  \<open>completed = false\<close>. (An empty array is the failure case of C7.)
\<close>

theorem appendSuggested_dedup:
  assumes "db s" and "unitData s = Some ud" and "selectedTrade s \<noteq> []" and "suggestions \<noteq> []"
    and "suggestedTasksOf coerce jsonParse fetched = Inr (Some (JArr (map JStr suggestions)))"
  shows "if list_all (\<lambda>x. JStr x \<in> task ` set (tasksOf (trades ud) (selectedTrade s))) suggestions
         then fs (handleSuggestTasks env coerce jsonParse fetched s) = fs s \<and>
              unitData (handleSuggestTasks env coerce jsonParse fetched s) = unitData s \<and>
              last (messages (handleSuggestTasks env coerce jsonParse fetched s)) =
                (''No new unique tasks were suggested.'', Info)
         else requests (fs (handleSuggestTasks env coerce jsonParse fetched s)) =
                requests (fs s) @ [unitId s] \<and>
              (\<forall>d. env (length (requests (fs s))) = None \<and> docs (fs s) (unitId s) = Some d \<longrightarrow>
                 docs (fs (handleSuggestTasks env coerce jsonParse fetched s)) (unitId s) =
                   Some (d\<lparr>trades := (trades ud)(selectedTrade s \<mapsto>
                      tasksOf (trades ud) (selectedTrade s) @
                      map (\<lambda>x. \<lparr>task = JStr x, completed = False\<rparr>)
                        (filter (\<lambda>x. JStr x \<notin> task ` set (tasksOf (trades ud) (selectedTrade s)))
                           suggestions))\<rparr>) \<and>
                 last (messages (handleSuggestTasks env coerce jsonParse fetched s)) =
                   (''Suggested tasks added for '' @ selectedTrade s @ ''!'', Info))"
proof -
  let ?old = "tasksOf (trades ud) (selectedTrade s)"
  let ?fresh = "filter (\<lambda>x. JStr x \<notin> task ` set ?old) suggestions"
  have new: "newTasksToAdd ?old (map JStr suggestions) = map mk_task ?fresh"
    by (rule newTasksToAdd_strings)
  have all: "list_all (\<lambda>x. JStr x \<in> task ` set ?old) suggestions = (?fresh = [])"
    by (simp add: list_all_iff filter_empty_conv)
  show ?thesis
  proof (cases "?fresh = []")
    case True
    then have "newTasksToAdd ?old (map JStr suggestions) = []"
      by (simp add: new)
    with assms have "handleSuggestTasks env coerce jsonParse fetched s =
       s\<lparr>messages := messages s @ [generatingMessage s, (''No new unique tasks were suggested.'', Info)],
         isGeneratingTasks := False\<rparr>"
      by (intro suggest_nothing_new) simp_all
    with True all show ?thesis by simp
  next
    case False
    then have ne: "newTasksToAdd ?old (map JStr suggestions) \<noteq> []"
      by (simp add: new)
    have r: "requests (fs (handleSuggestTasks env coerce jsonParse fetched s)) =
                requests (fs s) @ [unitId s]"
      using assms(1,2,3,5) ne by (rule suggest_requests)
    have w: "docs (fs (handleSuggestTasks env coerce jsonParse fetched s)) (unitId s) =
                   Some (d\<lparr>trades := (trades ud)(selectedTrade s \<mapsto> ?old @
                      map (\<lambda>x. \<lparr>task = JStr x, completed = False\<rparr>) ?fresh)\<rparr>) \<and>
             last (messages (handleSuggestTasks env coerce jsonParse fetched s)) =
                   (''Suggested tasks added for '' @ selectedTrade s @ ''!'', Info)"
      if "env (length (requests (fs s))) = None" "docs (fs s) (unitId s) = Some d" for d
      using suggest_written [where env = env, OF assms(1,2,3,5) ne that] new
      by (simp add: mk_task_def [abs_def])
    from False all r w show ?thesis by simp
  qed
qed

theorem appendSuggested_dedup_witness:
  "db viewState \<and> unitData viewState = Some workedUnit \<and> selectedTrade viewState \<noteq> [] \<and>
   suggestedTasksOf noCoercion exampleParse (fetchedText knownText) =
     Inr (Some (JArr (map JStr [''Rough-in wiring'', ''Fixture installation'']))) \<and>
   fs (handleSuggestTasks allAccepted noCoercion exampleParse (fetchedText knownText) viewState) =
     fs viewState \<and>
   last (messages (handleSuggestTasks allAccepted noCoercion exampleParse (fetchedText knownText) viewState)) =
     (''No new unique tasks were suggested.'', Info) \<and>
   suggestedTasksOf noCoercion exampleParse (fetchedText mixedText) =
     Inr (Some (JArr (map JStr [''Rough-in wiring'', ''Install conduit'']))) \<and>
   map_option (\<lambda>d. tasksOf (trades d) ''Electrical'')
     (docs (fs (handleSuggestTasks allAccepted noCoercion exampleParse (fetchedText mixedText) viewState)) ''A-1'') =
     Some [\<lparr>task = JStr ''Rough-in wiring'', completed = True\<rparr>,
           \<lparr>task = JStr ''Fixture installation'', completed = False\<rparr>,
           \<lparr>task = JStr ''Install conduit'', completed = False\<rparr>] \<and>
   suggestedTasksOf noCoercion exampleParse (fetchedText lowerText) =
     Inr (Some (JArr (map JStr [''rough-in wiring'']))) \<and>
   map_option (\<lambda>d. tasksOf (trades d) ''Electrical'')
     (docs (fs (handleSuggestTasks allAccepted noCoercion exampleParse (fetchedText lowerText) viewState)) ''A-1'') =
     Some [\<lparr>task = JStr ''Rough-in wiring'', completed = True\<rparr>,
           \<lparr>task = JStr ''Fixture installation'', completed = False\<rparr>,
           \<lparr>task = JStr ''rough-in wiring'', completed = False\<rparr>]"
proof -
  note v = viewState_facts
  have p1: "suggestedTasksOf noCoercion exampleParse (fetchedText knownText) =
     Inr (Some (JArr (map JStr [''Rough-in wiring'', ''Fixture installation''])))"
    and p2: "suggestedTasksOf noCoercion exampleParse (fetchedText mixedText) =
     Inr (Some (JArr (map JStr [''Rough-in wiring'', ''Install conduit''])))"
    and p3: "suggestedTasksOf noCoercion exampleParse (fetchedText lowerText) =
     Inr (Some (JArr (map JStr [''rough-in wiring''])))"
    by (simp_all only: fetchedText_parsed example_parses sum.case)
  have ne: "[''Rough-in wiring'', ''Fixture installation''] \<noteq> []"
    "[''Rough-in wiring'', ''Install conduit''] \<noteq> []" "[''rough-in wiring''] \<noteq> []"
    by simp_all
  from appendSuggested_dedup [where env = allAccepted, OF v(1,2,3) ne(1) p1]
  have 1: "fs (handleSuggestTasks allAccepted noCoercion exampleParse (fetchedText knownText) viewState) =
     fs viewState"
    "last (messages (handleSuggestTasks allAccepted noCoercion exampleParse (fetchedText knownText) viewState)) =
     (''No new unique tasks were suggested.'', Info)"
    by (simp_all add: v(7) workedUnit_Electrical)
  from appendSuggested_dedup [where env = allAccepted, OF v(1,2,3) ne(2) p2] v(4,5)
  have "docs (fs (handleSuggestTasks allAccepted noCoercion exampleParse (fetchedText mixedText) viewState)) ''A-1'' =
     Some (workedUnit\<lparr>trades := (trades workedUnit)(''Electrical'' \<mapsto>
       [\<lparr>task = JStr ''Rough-in wiring'', completed = True\<rparr>,
        \<lparr>task = JStr ''Fixture installation'', completed = False\<rparr>,
        \<lparr>task = JStr ''Install conduit'', completed = False\<rparr>])\<rparr>)"
    by (simp add: v(6,7) workedUnit_Electrical)
  then have 2: "map_option (\<lambda>d. tasksOf (trades d) ''Electrical'')
     (docs (fs (handleSuggestTasks allAccepted noCoercion exampleParse (fetchedText mixedText) viewState)) ''A-1'') =
     Some [\<lparr>task = JStr ''Rough-in wiring'', completed = True\<rparr>,
           \<lparr>task = JStr ''Fixture installation'', completed = False\<rparr>,
           \<lparr>task = JStr ''Install conduit'', completed = False\<rparr>]"
    by (simp add: tasksOf_def)
  from appendSuggested_dedup [where env = allAccepted, OF v(1,2,3) ne(3) p3] v(4,5)
  have "docs (fs (handleSuggestTasks allAccepted noCoercion exampleParse (fetchedText lowerText) viewState)) ''A-1'' =
     Some (workedUnit\<lparr>trades := (trades workedUnit)(''Electrical'' \<mapsto>
       [\<lparr>task = JStr ''Rough-in wiring'', completed = True\<rparr>,
        \<lparr>task = JStr ''Fixture installation'', completed = False\<rparr>,
        \<lparr>task = JStr ''rough-in wiring'', completed = False\<rparr>])\<rparr>)"
    by (simp add: v(6,7) workedUnit_Electrical)
  then have 3: "map_option (\<lambda>d. tasksOf (trades d) ''Electrical'')
     (docs (fs (handleSuggestTasks allAccepted noCoercion exampleParse (fetchedText lowerText) viewState)) ''A-1'') =
     Some [\<lparr>task = JStr ''Rough-in wiring'', completed = True\<rparr>,
           \<lparr>task = JStr ''Fixture installation'', completed = False\<rparr>,
           \<lparr>task = JStr ''rough-in wiring'', completed = False\<rparr>]"
    by (simp add: tasksOf_def)
  show ?thesis
    using v(1,2,3) p1 p2 p3 1 2 3 by simp
qed

text \<open>
  C10. Suggestions are compared with the tasks already in the trade only: when the
  response is a list holding the same new string twice, both occurrences are appended.
\<close>

theorem duplicate_suggestion_appended_twice:
  assumes "db s" and "unitData s = Some ud" and "selectedTrade s \<noteq> []"
    and "JStr x \<notin> task ` set (tasksOf (trades ud) (selectedTrade s))"
    and "suggestedTasksOf coerce jsonParse fetched = Inr (Some (JArr [JStr x, JStr x]))"
    and "env (length (requests (fs s))) = None" and "docs (fs s) (unitId s) = Some d"
  shows "docs (fs (handleSuggestTasks env coerce jsonParse fetched s)) (unitId s) =
           Some (d\<lparr>trades := (trades ud)(selectedTrade s \<mapsto>
              tasksOf (trades ud) (selectedTrade s) @
              [\<lparr>task = JStr x, completed = False\<rparr>, \<lparr>task = JStr x, completed = False\<rparr>])\<rparr>)"
proof -
  let ?old = "tasksOf (trades ud) (selectedTrade s)"
  have new: "newTasksToAdd ?old [JStr x, JStr x] = [mk_task x, mk_task x]"
    using assms(4) newTasksToAdd_strings [of ?old "[x, x]"] by simp
  then have ne: "newTasksToAdd ?old [JStr x, JStr x] \<noteq> []" by simp
  show ?thesis
    using suggest_written [where env = env, OF assms(1,2,3,5) ne assms(6,7)] new
    by (simp add: mk_task_def)
qed

theorem duplicate_suggestion_appended_twice_witness:
  "db viewState \<and> unitData viewState = Some workedUnit \<and> selectedTrade viewState \<noteq> [] \<and>
   JStr ''Install conduit'' \<notin> task ` set (tasksOf (trades workedUnit) (selectedTrade viewState)) \<and>
   suggestedTasksOf noCoercion exampleParse (fetchedText twiceText) =
     Inr (Some (JArr [JStr ''Install conduit'', JStr ''Install conduit''])) \<and>
   allAccepted (length (requests (fs viewState))) = None \<and>
   docs (fs viewState) (unitId viewState) = Some workedUnit \<and>
   map_option (\<lambda>d. tasksOf (trades d) ''Electrical'')
     (docs (fs (handleSuggestTasks allAccepted noCoercion exampleParse (fetchedText twiceText) viewState)) ''A-1'') =
     Some [\<lparr>task = JStr ''Rough-in wiring'', completed = True\<rparr>,
           \<lparr>task = JStr ''Fixture installation'', completed = False\<rparr>,
           \<lparr>task = JStr ''Install conduit'', completed = False\<rparr>,
           \<lparr>task = JStr ''Install conduit'', completed = False\<rparr>]"
proof -
  note v = viewState_facts
  have n: "JStr ''Install conduit'' \<notin> task ` set (tasksOf (trades workedUnit) (selectedTrade viewState))"
    by (simp add: v(7) workedUnit_Electrical)
  have p: "suggestedTasksOf noCoercion exampleParse (fetchedText twiceText) =
     Inr (Some (JArr [JStr ''Install conduit'', JStr ''Install conduit'']))"
    by (simp only: fetchedText_parsed example_parses sum.case)
  from duplicate_suggestion_appended_twice [where env = allAccepted, OF v(1,2,3) n p v(4,5)]
  have "docs (fs (handleSuggestTasks allAccepted noCoercion exampleParse (fetchedText twiceText) viewState)) ''A-1'' =
     Some (workedUnit\<lparr>trades := (trades workedUnit)(''Electrical'' \<mapsto>
       [\<lparr>task = JStr ''Rough-in wiring'', completed = True\<rparr>,
        \<lparr>task = JStr ''Fixture installation'', completed = False\<rparr>,
        \<lparr>task = JStr ''Install conduit'', completed = False\<rparr>,
        \<lparr>task = JStr ''Install conduit'', completed = False\<rparr>])\<rparr>)"
    by (simp add: v(6,7) workedUnit_Electrical)
  then have "map_option (\<lambda>d. tasksOf (trades d) ''Electrical'')
     (docs (fs (handleSuggestTasks allAccepted noCoercion exampleParse (fetchedText twiceText) viewState)) ''A-1'') =
     Some [\<lparr>task = JStr ''Rough-in wiring'', completed = True\<rparr>,
           \<lparr>task = JStr ''Fixture installation'', completed = False\<rparr>,
           \<lparr>task = JStr ''Install conduit'', completed = False\<rparr>,
           \<lparr>task = JStr ''Install conduit'', completed = False\<rparr>]"
    by (simp add: tasksOf_def)
  then show ?thesis
    using v(1,2,3,4,5) n p by simp
qed


section \<open>Responses that are not a list of tasks\<close>

text \<open>
  C7, as the spec states it, fails: the response \<open>[1]\<close> parses to a non-empty array that
  is not an array of strings; the handler reports no failure and appends the task
  \<open>{task: 1, completed: false}\<close>.
\<close>

theorem suggest_non_string_elements_counterexample:
  "suggestedTasksOf noCoercion exampleParse (fetchedText ''[1]'') = Inr (Some (JArr [JNum 1])) \<and>
   map_option (\<lambda>d. tasksOf (trades d) ''Electrical'')
     (docs (fs (handleSuggestTasks allAccepted noCoercion exampleParse (fetchedText ''[1]'') viewState)) ''A-1'') =
     Some [\<lparr>task = JStr ''Rough-in wiring'', completed = True\<rparr>,
           \<lparr>task = JStr ''Fixture installation'', completed = False\<rparr>,
           \<lparr>task = JNum 1, completed = False\<rparr>] \<and>
   last (messages (handleSuggestTasks allAccepted noCoercion exampleParse (fetchedText ''[1]'') viewState)) =
     (''Suggested tasks added for Electrical!'', Info)"
proof -
  note v = viewState_facts
  have p: "suggestedTasksOf noCoercion exampleParse (fetchedText ''[1]'') = Inr (Some (JArr [JNum 1]))"
    by (simp only: fetchedText_parsed example_parses sum.case)
  have new: "newTasksToAdd (tasksOf (trades workedUnit) (selectedTrade viewState)) [JNum 1] =
     [\<lparr>task = JNum 1, completed = False\<rparr>]"
    by (simp add: v(7) workedUnit_Electrical newTasksToAdd_def)
  then have ne: "newTasksToAdd (tasksOf (trades workedUnit) (selectedTrade viewState)) [JNum 1] \<noteq> []"
    by simp
  note w = suggest_written [where env = allAccepted, OF v(1,2,3) p ne v(4,5)]
  have "handleSuggestTasks allAccepted noCoercion exampleParse (fetchedText ''[1]'') viewState =
     viewState\<lparr>fs := \<lparr>docs = (docs (fs viewState))(''A-1'' \<mapsto>
                  workedUnit\<lparr>trades := (trades workedUnit)(''Electrical'' \<mapsto>
                    [\<lparr>task = JStr ''Rough-in wiring'', completed = True\<rparr>,
                     \<lparr>task = JStr ''Fixture installation'', completed = False\<rparr>,
                     \<lparr>task = JNum 1, completed = False\<rparr>])\<rparr>),
              requests = requests (fs viewState) @ [''A-1'']\<rparr>,
       messages := messages viewState @
         [generatingMessage viewState, (''Suggested tasks added for Electrical!'', Info)],
       isGeneratingTasks := False\<rparr>"
    unfolding w new by (simp add: v(6,7) workedUnit_Electrical)
  then show ?thesis
    by (simp add: p tasksOf_def)
qed

text \<open>
  C7, amended. Unless the response yields a non-empty array (whatever its elements), the
  handler reports an error and writes nothing: when the request, \<^verbatim>\<open>response.json()\<close>, a
  property read or the parser throws, when the shape condition is false, and when the
  parsed value is not an array or is the empty array, the store and \<open>unitData\<close> are as
  before and the only messages added are the progress information and one error.
\<close>

theorem suggest_invalid_response_reported:
  assumes "db s" and "unitData s = Some ud" and "selectedTrade s \<noteq> []"
    and "\<not> (\<exists>x xs. suggestedTasksOf coerce jsonParse fetched = Inr (Some (JArr (x # xs))))"
  shows "fs (handleSuggestTasks env coerce jsonParse fetched s) = fs s \<and>
         unitData (handleSuggestTasks env coerce jsonParse fetched s) = unitData s \<and>
         (\<exists>txt. messages (handleSuggestTasks env coerce jsonParse fetched s) =
            messages s @ [(''Generating tasks for '' @ selectedTrade s @ ''...'', Info), (txt, Error)])"
proof -
  from suggest_failure [OF assms] obtain report where
    "handleSuggestTasks env coerce jsonParse fetched s =
       s\<lparr>messages := messages s @ [generatingMessage s, (report, Error)], isGeneratingTasks := False\<rparr>"
    by blast
  then show ?thesis
    by (simp add: generatingMessage_def)
qed

theorem suggest_invalid_response_reported_witness:
  "db viewState \<and> unitData viewState = Some workedUnit \<and> selectedTrade viewState \<noteq> [] \<and>
   suggestedTasksOf noCoercion exampleParse (Inl ''Failed to fetch'') = Inl (Thrown ''Failed to fetch'') \<and>
   fs (handleSuggestTasks allAccepted noCoercion exampleParse (Inl ''Failed to fetch'') viewState) = fs viewState \<and>
   suggestedTasksOf noCoercion exampleParse (Inr (JObj [])) = Inr None \<and>
   fs (handleSuggestTasks allAccepted noCoercion exampleParse (Inr (JObj [])) viewState) = fs viewState \<and>
   suggestedTasksOf noCoercion exampleParse (Inr (JObj [(''candidates'', JArr [JNull])])) = Inl TypeError \<and>
   fs (handleSuggestTasks allAccepted noCoercion exampleParse (Inr (JObj [(''candidates'', JArr [JNull])])) viewState) = fs viewState \<and>
   suggestedTasksOf noCoercion exampleParse (fetchedText ''not json'') = Inl (Thrown ''Unexpected token'') \<and>
   fs (handleSuggestTasks allAccepted noCoercion exampleParse (fetchedText ''not json'') viewState) = fs viewState \<and>
   suggestedTasksOf noCoercion exampleParse (fetchedText ''[]'') = Inr (Some (JArr [])) \<and>
   fs (handleSuggestTasks allAccepted noCoercion exampleParse (fetchedText ''[]'') viewState) = fs viewState \<and>
   suggestedTasksOf noCoercion exampleParse (fetchedText (quoted ''abc'')) = Inr (Some (JStr ''abc'')) \<and>
   fs (handleSuggestTasks allAccepted noCoercion exampleParse (fetchedText (quoted ''abc'')) viewState) = fs viewState \<and>
   (\<exists>report. messages (handleSuggestTasks allAccepted noCoercion exampleParse (fetchedText (quoted ''abc'')) viewState) =
      [(''Generating tasks for Electrical...'', Info), (report, Error)])"
proof -
  note v = viewState_facts
  have p: "suggestedTasksOf noCoercion exampleParse (Inl ''Failed to fetch'') = Inl (Thrown ''Failed to fetch'')"
    "suggestedTasksOf noCoercion exampleParse (Inr (JObj [])) = Inr None"
    "suggestedTasksOf noCoercion exampleParse (Inr (JObj [(''candidates'', JArr [JNull])])) = Inl TypeError"
    by (simp_all add: suggestedTasksOf_def response_text_def bind_exn_def own_def)
  have q: "suggestedTasksOf noCoercion exampleParse (fetchedText ''not json'') = Inl (Thrown ''Unexpected token'')"
    "suggestedTasksOf noCoercion exampleParse (fetchedText ''[]'') = Inr (Some (JArr []))"
    "suggestedTasksOf noCoercion exampleParse (fetchedText (quoted ''abc'')) = Inr (Some (JStr ''abc''))"
    by (simp_all only: fetchedText_parsed example_parses sum.case)
  have m: "messages viewState = []"
    by (simp add: viewState_def)
  note t = suggest_invalid_response_reported [where env = allAccepted, OF v(1,2,3)]
  have 1: "fs (handleSuggestTasks allAccepted noCoercion exampleParse (Inl ''Failed to fetch'') viewState) = fs viewState"
    using t [of noCoercion exampleParse "Inl ''Failed to fetch''"] by (simp add: p)
  have 2: "fs (handleSuggestTasks allAccepted noCoercion exampleParse (Inr (JObj [])) viewState) = fs viewState"
    using t [of noCoercion exampleParse "Inr (JObj [])"] by (simp add: p)
  have 3: "fs (handleSuggestTasks allAccepted noCoercion exampleParse (Inr (JObj [(''candidates'', JArr [JNull])])) viewState) = fs viewState"
    using t [of noCoercion exampleParse "Inr (JObj [(''candidates'', JArr [JNull])])"] by (simp add: p)
  have 4: "fs (handleSuggestTasks allAccepted noCoercion exampleParse (fetchedText ''not json'') viewState) = fs viewState"
    using t [of noCoercion exampleParse "fetchedText ''not json''"] by (simp add: q)
  have 5: "fs (handleSuggestTasks allAccepted noCoercion exampleParse (fetchedText ''[]'') viewState) = fs viewState"
    using t [of noCoercion exampleParse "fetchedText ''[]''"] by (simp add: q)
  have 6: "fs (handleSuggestTasks allAccepted noCoercion exampleParse (fetchedText (quoted ''abc'')) viewState) = fs viewState \<and>
     (\<exists>report. messages (handleSuggestTasks allAccepted noCoercion exampleParse (fetchedText (quoted ''abc'')) viewState) =
        [(''Generating tasks for Electrical...'', Info), (report, Error)])"
    using t [of noCoercion exampleParse "fetchedText (quoted ''abc'')"] by (simp add: q m v(7))
  show ?thesis
    using v(1,2,3) p q 1 2 3 4 5 6 by simp
qed


section \<open>What a task mutation leaves alone\<close>

text \<open>
  C9. Let the unit be loaded and stored, and the store accept the write. Each of the
  three mutations then changes, in the store, the document of this unit only, and in it
  the field \<open>trades\<close> only (address and status are the stored ones); in the written trades
  map every trade but the targeted one has the list \<open>unitData\<close> had. In the targeted
  trade, a toggle keeps the length, every other task and the text of the toggled task,
  and flips its \<open>completed\<close>; adding a task and appending suggestions keep the old list
  as a prefix of the new one. Suggestions that bring nothing new leave the store as it is.
\<close>

theorem task_mutations_frame:
  assumes "db s" and "unitData s = Some ud" and "docs (fs s) (unitId s) = Some d"
    and "env (length (requests (fs s))) = None"
  shows
    "(\<forall>ts. trades ud tn = Some ts \<and> i < length ts \<longrightarrow>
        (\<exists>s' d' ts'.
           handleTaskToggle env tn i s = Inr s' \<and>
           docs (fs s') = (docs (fs s))(unitId s \<mapsto> d') \<and>
           address d' = address d \<and> status d' = status d \<and>
           (\<forall>k. k \<noteq> tn \<longrightarrow> trades d' k = trades ud k) \<and>
           trades d' tn = Some ts' \<and> length ts' = length ts \<and>
           (\<forall>j<length ts. j \<noteq> i \<longrightarrow> ts' ! j = ts ! j) \<and>
           task (ts' ! i) = task (ts ! i) \<and> completed (ts' ! i) = (\<not> completed (ts ! i)))) \<and>
     (selectedTrade s \<noteq> [] \<and> newTaskName \<noteq> [] \<longrightarrow>
        (\<exists>d'.
           docs (fs (handleAddTask env (Some newTaskName) s)) = (docs (fs s))(unitId s \<mapsto> d') \<and>
           address d' = address d \<and> status d' = status d \<and>
           (\<forall>k. k \<noteq> selectedTrade s \<longrightarrow> trades d' k = trades ud k) \<and>
           take (length (tasksOf (trades ud) (selectedTrade s))) (tasksOf (trades d') (selectedTrade s)) =
             tasksOf (trades ud) (selectedTrade s))) \<and>
     (selectedTrade s \<noteq> [] \<and> suggestedTasksOf coerce jsonParse fetched = Inr (Some (JArr xs)) \<longrightarrow>
        (if newTasksToAdd (tasksOf (trades ud) (selectedTrade s)) xs = []
         then fs (handleSuggestTasks env coerce jsonParse fetched s) = fs s
         else (\<exists>d'.
           docs (fs (handleSuggestTasks env coerce jsonParse fetched s)) = (docs (fs s))(unitId s \<mapsto> d') \<and>
           address d' = address d \<and> status d' = status d \<and>
           (\<forall>k. k \<noteq> selectedTrade s \<longrightarrow> trades d' k = trades ud k) \<and>
           take (length (tasksOf (trades ud) (selectedTrade s))) (tasksOf (trades d') (selectedTrade s)) =
             tasksOf (trades ud) (selectedTrade s))))"
proof (intro conjI allI impI)
  fix ts
  assume a: "trades ud tn = Some ts \<and> i < length ts"
  let ?ts' = "ts[i := flip (ts ! i)]"
  let ?d' = "d\<lparr>trades := (trades ud)(tn \<mapsto> ?ts')\<rparr>"
  let ?s' = "s\<lparr>unitData := Some (ud\<lparr>trades := (trades ud)(tn \<mapsto> ?ts')\<rparr>),
            fs := \<lparr>docs = (docs (fs s))(unitId s \<mapsto> ?d'), requests = requests (fs s) @ [unitId s]\<rparr>,
            messages := messages s @ [(''Task updated for '' @ tn @ ''!'', Info)]\<rparr>"
  have "handleTaskToggle env tn i s = Inr ?s'"
    using assms a by (intro toggle_accepted) simp_all
  moreover have "docs (fs ?s') = (docs (fs s))(unitId s \<mapsto> ?d')"
    "address ?d' = address d" "status ?d' = status d"
    "\<forall>k. k \<noteq> tn \<longrightarrow> trades ?d' k = trades ud k"
    "trades ?d' tn = Some ?ts'" "length ?ts' = length ts"
    "\<forall>j<length ts. j \<noteq> i \<longrightarrow> ?ts' ! j = ts ! j"
    "task (?ts' ! i) = task (ts ! i)" "completed (?ts' ! i) = (\<not> completed (ts ! i))"
    using a by (simp_all add: flip_def)
  ultimately show "\<exists>s' d' ts'.
           handleTaskToggle env tn i s = Inr s' \<and>
           docs (fs s') = (docs (fs s))(unitId s \<mapsto> d') \<and>
           address d' = address d \<and> status d' = status d \<and>
           (\<forall>k. k \<noteq> tn \<longrightarrow> trades d' k = trades ud k) \<and>
           trades d' tn = Some ts' \<and> length ts' = length ts \<and>
           (\<forall>j<length ts. j \<noteq> i \<longrightarrow> ts' ! j = ts ! j) \<and>
           task (ts' ! i) = task (ts ! i) \<and> completed (ts' ! i) = (\<not> completed (ts ! i))"
    by blast
next
  assume a: "selectedTrade s \<noteq> [] \<and> newTaskName \<noteq> []"
  let ?old = "tasksOf (trades ud) (selectedTrade s)"
  let ?d' = "d\<lparr>trades := (trades ud)(selectedTrade s \<mapsto> ?old @ [\<lparr>task = JStr newTaskName, completed = False\<rparr>])\<rparr>"
  have "handleAddTask env (Some newTaskName) s =
     s\<lparr>fs := \<lparr>docs = (docs (fs s))(unitId s \<mapsto> ?d'), requests = requests (fs s) @ [unitId s]\<rparr>,
       messages := messages s @
         [(''Task '' @ dquote @ newTaskName @ dquote @ '' added to '' @ selectedTrade s @ ''!'', Info)]\<rparr>"
    using assms a by (intro addTask_accepted) simp_all
  then have "docs (fs (handleAddTask env (Some newTaskName) s)) = (docs (fs s))(unitId s \<mapsto> ?d')"
    by simp
  moreover have "address ?d' = address d" "status ?d' = status d"
    "\<forall>k. k \<noteq> selectedTrade s \<longrightarrow> trades ?d' k = trades ud k"
    "take (length ?old) (tasksOf (trades ?d') (selectedTrade s)) = ?old"
    by (simp_all add: tasksOf_def)
  ultimately show "\<exists>d'.
           docs (fs (handleAddTask env (Some newTaskName) s)) = (docs (fs s))(unitId s \<mapsto> d') \<and>
           address d' = address d \<and> status d' = status d \<and>
           (\<forall>k. k \<noteq> selectedTrade s \<longrightarrow> trades d' k = trades ud k) \<and>
           take (length ?old) (tasksOf (trades d') (selectedTrade s)) = ?old"
    by blast
next
  assume a: "selectedTrade s \<noteq> [] \<and> suggestedTasksOf coerce jsonParse fetched = Inr (Some (JArr xs))"
  let ?old = "tasksOf (trades ud) (selectedTrade s)"
  let ?new = "newTasksToAdd ?old xs"
  let ?d' = "d\<lparr>trades := (trades ud)(selectedTrade s \<mapsto> ?old @ ?new)\<rparr>"
  show "if ?new = []
         then fs (handleSuggestTasks env coerce jsonParse fetched s) = fs s
         else (\<exists>d'.
           docs (fs (handleSuggestTasks env coerce jsonParse fetched s)) = (docs (fs s))(unitId s \<mapsto> d') \<and>
           address d' = address d \<and> status d' = status d \<and>
           (\<forall>k. k \<noteq> selectedTrade s \<longrightarrow> trades d' k = trades ud k) \<and>
           take (length ?old) (tasksOf (trades d') (selectedTrade s)) = ?old)"
  proof (cases "?new = []")
    case True
    with assms a show ?thesis
      by (simp add: suggest_not_written)
  next
    case False
    have "docs (fs (handleSuggestTasks env coerce jsonParse fetched s)) = (docs (fs s))(unitId s \<mapsto> ?d')"
      using suggest_written [where env = env and xs = xs and coerce = coerce and jsonParse = jsonParse
          and fetched = fetched and s = s and ud = ud and d = d] assms a False
      by simp
    moreover have "address ?d' = address d" "status ?d' = status d"
      "\<forall>k. k \<noteq> selectedTrade s \<longrightarrow> trades ?d' k = trades ud k"
      "take (length ?old) (tasksOf (trades ?d') (selectedTrade s)) = ?old"
      by (simp_all add: tasksOf_def)
    ultimately have "\<exists>d'.
           docs (fs (handleSuggestTasks env coerce jsonParse fetched s)) = (docs (fs s))(unitId s \<mapsto> d') \<and>
           address d' = address d \<and> status d' = status d \<and>
           (\<forall>k. k \<noteq> selectedTrade s \<longrightarrow> trades d' k = trades ud k) \<and>
           take (length ?old) (tasksOf (trades d') (selectedTrade s)) = ?old"
      by blast
    with False show ?thesis by simp
  qed
qed

theorem task_mutations_frame_witness:
  "db viewState \<and> unitData viewState = Some workedUnit \<and>
   docs (fs viewState) (unitId viewState) = Some workedUnit \<and>
   allAccepted (length (requests (fs viewState))) = None \<and>
   trades workedUnit ''Electrical'' =
     Some [\<lparr>task = JStr ''Rough-in wiring'', completed = True\<rparr>,
           \<lparr>task = JStr ''Fixture installation'', completed = False\<rparr>] \<and>
   (\<exists>s' d'. handleTaskToggle allAccepted ''Electrical'' 1 viewState = Inr s' \<and>
      docs (fs s') = (docs (fs viewState))(''A-1'' \<mapsto> d') \<and>
      address d' = ''123 Main'' \<and> status d' = ''In Progress'' \<and>
      trades d' ''Plumbing'' = defaultTrades ''Plumbing'' \<and>
      trades d' ''Electrical'' =
        Some [\<lparr>task = JStr ''Rough-in wiring'', completed = True\<rparr>,
              \<lparr>task = JStr ''Fixture installation'', completed = True\<rparr>]) \<and>
   selectedTrade viewState \<noteq> [] \<and> ''Install panel'' \<noteq> [] \<and>
   (\<exists>d'. docs (fs (handleAddTask allAccepted (Some ''Install panel'') viewState)) =
            (docs (fs viewState))(''A-1'' \<mapsto> d') \<and>
      address d' = ''123 Main'' \<and> status d' = ''In Progress'' \<and>
      trades d' ''Plumbing'' = defaultTrades ''Plumbing'') \<and>
   suggestedTasksOf noCoercion exampleParse (fetchedText mixedText) =
     Inr (Some (JArr [JStr ''Rough-in wiring'', JStr ''Install conduit''])) \<and>
   (\<exists>d'. docs (fs (handleSuggestTasks allAccepted noCoercion exampleParse (fetchedText mixedText) viewState)) =
            (docs (fs viewState))(''A-1'' \<mapsto> d') \<and>
      address d' = ''123 Main'' \<and> status d' = ''In Progress'' \<and>
      trades d' ''Plumbing'' = defaultTrades ''Plumbing'')"
proof -
  note v = viewState_facts
  have el: "trades workedUnit ''Electrical'' =
     Some [\<lparr>task = JStr ''Rough-in wiring'', completed = True\<rparr>,
           \<lparr>task = JStr ''Fixture installation'', completed = False\<rparr>]"
    and pl: "trades workedUnit ''Plumbing'' = defaultTrades ''Plumbing''"
    and ad: "address workedUnit = ''123 Main''" "status workedUnit = ''In Progress''"
    by (simp_all add: workedUnit_def workedTrades_def mk_task_def)
  have p: "suggestedTasksOf noCoercion exampleParse (fetchedText mixedText) =
     Inr (Some (JArr [JStr ''Rough-in wiring'', JStr ''Install conduit'']))"
    using fetchedText_parsed [of noCoercion mixedText] by (simp add: example_parses)
  have new: "newTasksToAdd (tasksOf (trades workedUnit) ''Electrical'')
       [JStr ''Rough-in wiring'', JStr ''Install conduit''] \<noteq> []"
    by (simp add: workedUnit_Electrical newTasksToAdd_def)
  note f = task_mutations_frame [where env = allAccepted, OF v(1,2,5,4)]
  have 1: "\<exists>s' d'. handleTaskToggle allAccepted ''Electrical'' 1 viewState = Inr s' \<and>
      docs (fs s') = (docs (fs viewState))(''A-1'' \<mapsto> d') \<and>
      address d' = ''123 Main'' \<and> status d' = ''In Progress'' \<and>
      trades d' ''Plumbing'' = defaultTrades ''Plumbing'' \<and>
      trades d' ''Electrical'' =
        Some [\<lparr>task = JStr ''Rough-in wiring'', completed = True\<rparr>,
              \<lparr>task = JStr ''Fixture installation'', completed = True\<rparr>]"
  proof -
    let ?ts = "[\<lparr>task = JStr ''Rough-in wiring'', completed = True\<rparr>,
                \<lparr>task = JStr ''Fixture installation'', completed = False\<rparr>]"
    have "trades workedUnit ''Electrical'' = Some ?ts \<and> 1 < length ?ts"
      using el by simp
    with f [of "''Electrical''" 1, THEN conjunct1]
    obtain s' d' ts' where t:
      "handleTaskToggle allAccepted ''Electrical'' 1 viewState = Inr s'"
      "docs (fs s') = (docs (fs viewState))(unitId viewState \<mapsto> d')"
      "address d' = address workedUnit" "status d' = status workedUnit"
      "\<forall>k. k \<noteq> ''Electrical'' \<longrightarrow> trades d' k = trades workedUnit k"
      "trades d' ''Electrical'' = Some ts'" "length ts' = length ?ts"
      "\<forall>j<length ?ts. j \<noteq> 1 \<longrightarrow> ts' ! j = ?ts ! j"
      "task (ts' ! 1) = task (?ts ! 1)" "completed (ts' ! 1) = (\<not> completed (?ts ! 1))"
      by blast
    have "ts' ! 0 = ?ts ! 0"
      using t(8) by simp
    with t(7,9,10) have "ts' = [\<lparr>task = JStr ''Rough-in wiring'', completed = True\<rparr>,
              \<lparr>task = JStr ''Fixture installation'', completed = True\<rparr>]"
      by (auto simp: list_eq_iff_nth_eq less_Suc_eq)
    moreover have "trades d' ''Plumbing'' = trades workedUnit ''Plumbing''"
      using t(5) by simp
    ultimately show ?thesis
      using t(1,2,3,4,6) pl ad v(6) by auto
  qed
  have 2: "\<exists>d'. docs (fs (handleAddTask allAccepted (Some ''Install panel'') viewState)) =
            (docs (fs viewState))(''A-1'' \<mapsto> d') \<and>
      address d' = ''123 Main'' \<and> status d' = ''In Progress'' \<and>
      trades d' ''Plumbing'' = defaultTrades ''Plumbing''"
  proof -
    have "selectedTrade viewState \<noteq> [] \<and> ''Install panel'' \<noteq> []"
      using v(3) by simp
    with f [of "''Electrical''" 1 "''Install panel''", THEN conjunct2, THEN conjunct1]
    obtain d' where t:
      "docs (fs (handleAddTask allAccepted (Some ''Install panel'') viewState)) =
         (docs (fs viewState))(unitId viewState \<mapsto> d')"
      "address d' = address workedUnit" "status d' = status workedUnit"
      "\<forall>k. k \<noteq> selectedTrade viewState \<longrightarrow> trades d' k = trades workedUnit k"
      by blast
    have "trades d' ''Plumbing'' = trades workedUnit ''Plumbing''"
      using t(4) by (simp add: v(7))
    then show ?thesis
      using t(1,2,3) pl ad v(6) by auto
  qed
  have 3: "\<exists>d'. docs (fs (handleSuggestTasks allAccepted noCoercion exampleParse (fetchedText mixedText) viewState)) =
            (docs (fs viewState))(''A-1'' \<mapsto> d') \<and>
      address d' = ''123 Main'' \<and> status d' = ''In Progress'' \<and>
      trades d' ''Plumbing'' = defaultTrades ''Plumbing''"
  proof -
    let ?xs = "[JStr ''Rough-in wiring'', JStr ''Install conduit'']"
    have "selectedTrade viewState \<noteq> [] \<and>
          suggestedTasksOf noCoercion exampleParse (fetchedText mixedText) = Inr (Some (JArr ?xs))"
      using v(3) p by simp
    with f [of "''Electrical''" 1 "''Install panel''" noCoercion exampleParse "fetchedText mixedText" ?xs,
        THEN conjunct2, THEN conjunct2]
    have "if newTasksToAdd (tasksOf (trades workedUnit) (selectedTrade viewState)) ?xs = []
         then fs (handleSuggestTasks allAccepted noCoercion exampleParse (fetchedText mixedText) viewState) =
              fs viewState
         else (\<exists>d'.
           docs (fs (handleSuggestTasks allAccepted noCoercion exampleParse (fetchedText mixedText) viewState)) =
             (docs (fs viewState))(unitId viewState \<mapsto> d') \<and>
           address d' = address workedUnit \<and> status d' = status workedUnit \<and>
           (\<forall>k. k \<noteq> selectedTrade viewState \<longrightarrow> trades d' k = trades workedUnit k) \<and>
           take (length (tasksOf (trades workedUnit) (selectedTrade viewState)))
             (tasksOf (trades d') (selectedTrade viewState)) =
             tasksOf (trades workedUnit) (selectedTrade viewState))"
      by blast
    with new obtain d' where t:
      "docs (fs (handleSuggestTasks allAccepted noCoercion exampleParse (fetchedText mixedText) viewState)) =
         (docs (fs viewState))(unitId viewState \<mapsto> d')"
      "address d' = address workedUnit" "status d' = status workedUnit"
      "\<forall>k. k \<noteq> selectedTrade viewState \<longrightarrow> trades d' k = trades workedUnit k"
      unfolding v(7) by auto
    have "trades d' ''Plumbing'' = trades workedUnit ''Plumbing''"
      using t(4) by (simp add: v(7))
    then show ?thesis
      using t(1,2,3) pl ad v(6) by auto
  qed
  show ?thesis
    using v(1,2,3,4,5) el p 1 2 3 by simp
qed

end
